theory Spec2Isabelle
  imports Main
begin

section \<open>Go values and their reflected types\<close>

text \<open>
  The factory code of goldi inspects its inputs through Go's \<^verbatim>\<open>reflect\<close> package. The part
  of \<^verbatim>\<open>reflect\<close> the code reads is modelled here: the kind of a type, the inputs and outputs
  of a function type, whether it is variadic, the element type of a slice.
\<close>

datatype kind =
    KInvalid | KBool | KInt | KInt8 | KInt16 | KInt32 | KInt64
  | KUint | KUint8 | KUint16 | KUint32 | KUint64 | KUintptr
  | KFloat32 | KFloat64 | KComplex64 | KComplex128
  | KArray | KChan | KFunc | KInterface | KMap | KPtr | KSlice | KString | KStruct
  | KUnsafePointer

text \<open>The kinds of the types that the code never takes apart.\<close>

datatype plain =
    PBool | PInt | PInt8 | PInt16 | PInt32 | PInt64
  | PUint | PUint8 | PUint16 | PUint32 | PUint64 | PUintptr
  | PFloat32 | PFloat64 | PComplex64 | PComplex128
  | PArray | PChan | PMap | PString | PStruct | PUnsafePointer

text \<open>
  A \<^verbatim>\<open>reflect.Type\<close>. A function type lists its fixed parameters, the element type of its
  variadic parameter when it has one, and its results: \<^verbatim>\<open>func(a string, rest ...int) *T\<close> is
  \<open>TFunc [string] (Some int) [*T]\<close>, and its last input is the slice \<^verbatim>\<open>[]int\<close>.
\<close>

datatype rtype =
    TFunc "rtype list" "rtype option" "rtype list"
  | TSlice rtype
  | TPtr rtype
  | TInterface string
  | TNamed plain string

fun plain_kind :: "plain \<Rightarrow> kind" where
  "plain_kind PBool = KBool"
| "plain_kind PInt = KInt"
| "plain_kind PInt8 = KInt8"
| "plain_kind PInt16 = KInt16"
| "plain_kind PInt32 = KInt32"
| "plain_kind PInt64 = KInt64"
| "plain_kind PUint = KUint"
| "plain_kind PUint8 = KUint8"
| "plain_kind PUint16 = KUint16"
| "plain_kind PUint32 = KUint32"
| "plain_kind PUint64 = KUint64"
| "plain_kind PUintptr = KUintptr"
| "plain_kind PFloat32 = KFloat32"
| "plain_kind PFloat64 = KFloat64"
| "plain_kind PComplex64 = KComplex64"
| "plain_kind PComplex128 = KComplex128"
| "plain_kind PArray = KArray"
| "plain_kind PChan = KChan"
| "plain_kind PMap = KMap"
| "plain_kind PString = KString"
| "plain_kind PStruct = KStruct"
| "plain_kind PUnsafePointer = KUnsafePointer"

fun Kind :: "rtype \<Rightarrow> kind" where
  "Kind (TFunc fixed va outs) = KFunc"
| "Kind (TSlice e) = KSlice"
| "Kind (TPtr e) = KPtr"
| "Kind (TInterface n) = KInterface"
| "Kind (TNamed p n) = plain_kind p"

text \<open>
  The inputs of a function type, the variadic parameter last, as a slice. \<^verbatim>\<open>NumIn\<close>,
  \<^verbatim>\<open>NumOut\<close> and \<^verbatim>\<open>IsVariadic\<close> panic in Go on a type that is no function; the code calls them
  only behind the test \<^verbatim>\<open>kind == reflect.Func\<close> of \<^verbatim>\<open>NewType\<close>. \<^verbatim>\<open>In\<close>, \<^verbatim>\<open>Out\<close> and \<^verbatim>\<open>Elem\<close>
  return \<open>None\<close> where Go panics (index out of range, no element type).
\<close>

fun inputs :: "rtype \<Rightarrow> rtype list" where
  "inputs (TFunc fixed va outs) = fixed @ (case va of None \<Rightarrow> [] | Some e \<Rightarrow> [TSlice e])"
| "inputs _ = []"

fun outputs :: "rtype \<Rightarrow> rtype list" where
  "outputs (TFunc fixed va outs) = outs"
| "outputs _ = []"

fun IsVariadic :: "rtype \<Rightarrow> bool" where
  "IsVariadic (TFunc fixed va outs) = (va \<noteq> None)"
| "IsVariadic _ = False"

definition NumIn :: "rtype \<Rightarrow> nat" where
  "NumIn t = length (inputs t)"

definition NumOut :: "rtype \<Rightarrow> nat" where
  "NumOut t = length (outputs t)"

definition In :: "rtype \<Rightarrow> nat \<Rightarrow> rtype option" where
  "In t i = (if i < NumIn t then Some (inputs t ! i) else None)"

definition Out :: "rtype \<Rightarrow> nat \<Rightarrow> rtype option" where
  "Out t i = (if i < NumOut t then Some (outputs t ! i) else None)"

fun Elem :: "rtype \<Rightarrow> rtype option" where
  "Elem (TSlice e) = Some e"
| "Elem (TPtr e) = Some e"
| "Elem _ = None"

text \<open>
  A Go value as an \<^verbatim>\<open>interface{}\<close> holds it (and as a \<^verbatim>\<open>reflect.Value\<close> wraps it). \<open>VNil\<close> is
  the nil interface, whose \<^verbatim>\<open>reflect.Value\<close> is the zero Value. \<open>VOther t n\<close> is a value of any
  other type \<open>t\<close> (a function, a pointer, a struct), told apart by \<open>n\<close>. \<open>VObject t fs\<close> is
  a struct, or a pointer to one, with its fields. \<open>VBound t x m\<close> is the method value
  \<^verbatim>\<open>x.m\<close> of function type \<open>t\<close>: a callable closing over the instance \<open>x\<close>.
\<close>

datatype val =
    VNil
  | VBool bool
  | VInt int
  | VString string
  | VSlice rtype "val list"
  | VOther rtype nat
  | VObject rtype "(string \<times> val) list"
  | VBound rtype val string

fun TypeOf :: "val \<Rightarrow> rtype option" where
  "TypeOf VNil = None"
| "TypeOf (VBool b) = Some (TNamed PBool ''bool'')"
| "TypeOf (VInt i) = Some (TNamed PInt ''int'')"
| "TypeOf (VString s) = Some (TNamed PString ''string'')"
| "TypeOf (VSlice e vs) = Some (TSlice e)"
| "TypeOf (VOther t n) = Some t"
| "TypeOf (VObject t fields) = Some t"
| "TypeOf (VBound t x m) = Some t"

text \<open>\<^verbatim>\<open>reflect.ValueOf(v).Kind()\<close>: the zero Value has kind \<^verbatim>\<open>Invalid\<close>.\<close>

definition ValueKind :: "val \<Rightarrow> kind" where
  "ValueKind v = (case TypeOf v of None \<Rightarrow> KInvalid | Some t \<Rightarrow> Kind t)"

section \<open>Errors\<close>

text \<open>
  An error built by \<^verbatim>\<open>fmt.Errorf\<close> is kept as its format string and its operands, so that
  what an error names can be read off it. \<open>TypeReferenceError\<close> is the resolver's error for
  a failed type reference, with the fields \<^verbatim>\<open>TypeID\<close> and \<^verbatim>\<open>TypeInstance\<close> the factory reads.
  \<open>Panic\<close> is a run-time panic, which no caller here recovers.
\<close>

datatype operand =
    Str string
  | Num int
  | KindOp kind
  | Inst val
  | ErrOp err
and err =
    Errorf string "operand list"
  | TypeReferenceError string val
  | Panic string

section \<open>Raw arguments\<close>

text \<open>
  Modelled from the spec: \<^verbatim>\<open>IsParameterOrTypeReference\<close> is not among the sources. The spec
  gives the raw-argument syntax: a configuration placeholder \<^verbatim>\<open>%name%\<close>, a type reference
  \<^verbatim>\<open>@id\<close>, a type and member reference \<^verbatim>\<open>@id::Member\<close>.
\<close>

definition IsParameter :: "string \<Rightarrow> bool" where
  "IsParameter p = (2 \<le> length p \<and> hd p = CHR ''%'' \<and> last p = CHR ''%'')"

definition IsTypeReference :: "string \<Rightarrow> bool" where
  "IsTypeReference p = (2 \<le> length p \<and> hd p = CHR ''@'')"

definition IsParameterOrTypeReference :: "string \<Rightarrow> bool" where
  "IsParameterOrTypeReference p = (IsParameter p \<or> IsTypeReference p)"

text \<open>The type assertion \<^verbatim>\<open>argument.(string)\<close>.\<close>

fun stringArg :: "val \<Rightarrow> string option" where
  "stringArg (VString s) = Some s"
| "stringArg _ = None"

section \<open>Type factories\<close>

record typeFactory =
  factory :: val
  factoryType :: rtype
  factoryArguments :: "val list"

text \<open>
  Modelled from the spec: the invalid factory (\<^verbatim>\<open>newInvalidType\<close>, \<^verbatim>\<open>IsValid\<close>) and the alias
  factory (\<^verbatim>\<open>NewAliasType\<close>) are not among the sources. An invalid factory holds its recorded
  construction error, an alias factory the id it was created for; the function factory is
  the \<^verbatim>\<open>typeFactory\<close> of the source.
\<close>

datatype TypeFactory =
    InvalidType err
  | FuncType typeFactory
  | AliasType string

definition newInvalidType :: "err \<Rightarrow> TypeFactory" where
  "newInvalidType e = InvalidType e"

fun IsValid :: "TypeFactory \<Rightarrow> bool" where
  "IsValid (InvalidType e) = False"
| "IsValid _ = True"

subsection \<open>Construction\<close>

definition expectedArgumentType :: "rtype \<Rightarrow> nat \<Rightarrow> rtype option" where
  "expectedArgumentType t i =
     (let actualNumberOfArgs = NumIn t in
      if IsVariadic t \<and> actualNumberOfArgs - 1 \<le> i
      then (case In t (actualNumberOfArgs - 1) of None \<Rightarrow> None | Some s \<Rightarrow> Elem s)
      else In t i)"

text \<open>
  The loop of \<^verbatim>\<open>buildFactoryCallArguments\<close> from index \<open>i\<close> on. An argument whose kind differs
  from the expected kind is an error only when it is a string that is no placeholder and no
  reference.
\<close>

fun buildFrom :: "rtype \<Rightarrow> nat \<Rightarrow> val list \<Rightarrow> err + val list" where
  "buildFrom t i [] = Inr []"
| "buildFrom t i (argument # rest) =
     (case expectedArgumentType t i of
        None \<Rightarrow> Inl (Panic ''reflect: index out of range'')
      | Some expected \<Rightarrow>
          if ValueKind argument \<noteq> Kind expected \<and>
             (case stringArg argument of
                Some s \<Rightarrow> \<not> IsParameterOrTypeReference s
              | None \<Rightarrow> False)
          then Inl (Errorf ''input argument %d is of type %s but needs to be a %s''
                      [Num (int i + 1), KindOp (ValueKind argument), KindOp (Kind expected)])
          else (case buildFrom t (Suc i) rest of
                  Inl e \<Rightarrow> Inl e
                | Inr args \<Rightarrow> Inr (argument # args)))"

definition buildFactoryCallArguments :: "rtype \<Rightarrow> val list \<Rightarrow> err + val list" where
  "buildFactoryCallArguments t allParameters = buildFrom t 0 allParameters"

text \<open>The result is \<open>Inl\<close> only for a panic; an error is recorded in an invalid factory.\<close>

definition newTypeFromFactoryFunction :: "val \<Rightarrow> rtype \<Rightarrow> val list \<Rightarrow> err + TypeFactory" where
  "newTypeFromFactoryFunction function ft parameters =
     (if NumOut ft \<noteq> 1
      then Inr (newInvalidType
             (Errorf ''invalid number of return parameters: %d'' [Num (int (NumOut ft))]))
      else case Out ft 0 of
        None \<Rightarrow> Inl (Panic ''reflect: index out of range'')
      | Some out \<Rightarrow>
          let kindOfGeneratedType = Kind out in
          if kindOfGeneratedType \<noteq> KInterface \<and> kindOfGeneratedType \<noteq> KPtr
          then Inr (newInvalidType
                 (Errorf ''return parameter is no interface or pointer but a %v''
                    [KindOp kindOfGeneratedType]))
          else if IsVariadic ft \<and> length parameters < NumIn ft
          then Inr (newInvalidType
                 (Errorf ''invalid number of input parameters for variadic function: got %d but expected at least %d''
                    [Num (int (length parameters)), Num (int (NumIn ft))]))
          else if \<not> IsVariadic ft \<and> NumIn ft \<noteq> length parameters
          then Inr (newInvalidType
                 (Errorf ''invalid number of input parameters: got %d but expected %d''
                    [Num (int (length parameters)), Num (int (NumIn ft))]))
          else (case buildFactoryCallArguments ft parameters of
                  Inl (Panic p) \<Rightarrow> Inl (Panic p)
                | Inl e \<Rightarrow> Inr (newInvalidType e)
                | Inr args \<Rightarrow>
                    Inr (FuncType \<lparr>factory = function, factoryType = ft,
                                   factoryArguments = args\<rparr>)))"

text \<open>
  \<^verbatim>\<open>reflect.TypeOf\<close> of the nil interface is nil, and \<^verbatim>\<open>Kind\<close> on it panics.
\<close>

definition NewType :: "val \<Rightarrow> val list \<Rightarrow> err + TypeFactory" where
  "NewType factoryFunction factoryParameters =
     (case TypeOf factoryFunction of
        None \<Rightarrow> Inl (Panic ''nil pointer dereference'')
      | Some ft \<Rightarrow>
          if Kind ft = KFunc
          then newTypeFromFactoryFunction factoryFunction ft factoryParameters
          else Inr (newInvalidType
                 (Errorf ''the given factoryFunction must be a function (given %q)''
                    [KindOp (Kind ft)])))"

section \<open>The run-time system and the resolver\<close>

text \<open>\<^verbatim>\<open>strings.Split\<close> on a one-character separator, and \<^verbatim>\<open>strings.Join\<close>.\<close>

fun Split :: "string \<Rightarrow> char \<Rightarrow> string list" where
  "Split [] sep = [[]]"
| "Split (c # cs) sep =
     (if c = sep then [] # Split cs sep
      else (case Split cs sep of
              [] \<Rightarrow> [[c]]
            | p # ps \<Rightarrow> (c # p) # ps))"

fun Join :: "string list \<Rightarrow> string \<Rightarrow> string" where
  "Join [] sep = []"
| "Join [x] sep = x"
| "Join (x # y # ys) sep = x @ sep @ Join (y # ys) sep"

text \<open>\<^verbatim>\<open>reflect.Type.String\<close>: the name of a type as Go prints it.\<close>

fun TypeString :: "rtype \<Rightarrow> string" where
  "TypeString (TFunc fixed va outs) =
     ''func('' @
     Join (map TypeString fixed @
           (case va of None \<Rightarrow> [] | Some e \<Rightarrow> [''...'' @ TypeString e])) '', '' @
     '')'' @
     (case outs of
        [] \<Rightarrow> []
      | [out] \<Rightarrow> '' '' @ TypeString out
      | _ \<Rightarrow> '' ('' @ Join (map TypeString outs) '', '' @ '')'')"
| "TypeString (TSlice e) = ''[]'' @ TypeString e"
| "TypeString (TPtr e) = ''*'' @ TypeString e"
| "TypeString (TInterface n) = n"
| "TypeString (TNamed p n) = n"

text \<open>
  What the code asks of Go's run-time system, taken as given: the name of a function
  (\<^verbatim>\<open>runtime.FuncForPC(f.Pointer()).Name()\<close>), assignability between types, the lookup of an
  exported method of a value by its name (when there is one: its function type, and what
  the method does on that value when it is given its arguments), and the
  call of a function value with the values of its parameters, which returns the function's
  results or panics. \<^verbatim>\<open>reflect.Value.Call\<close> on a function that is not variadic and
  \<^verbatim>\<open>reflect.Value.CallSlice\<close> on a variadic one both hand over one value for each declared
  input, the sequence of the variadic parameter last; both are \<open>Invoke\<close>.
\<close>

record runtime =
  FuncName :: "val \<Rightarrow> string"
  AssignableTo :: "rtype \<Rightarrow> rtype \<Rightarrow> bool"
  MethodByName :: "val \<Rightarrow> string \<Rightarrow> (rtype \<times> (val list \<Rightarrow> err + val list)) option"
  Invoke :: "val \<Rightarrow> val list \<Rightarrow> err + val list"

text \<open>
  \<^verbatim>\<open>ParameterResolver.Resolve\<close> and the container it is bound to are not among the sources.
  They are taken as given: \<open>Resolve\<close> maps a raw argument and an expected type to a value or
  an error, \<open>Get\<close> is the retrieval of an instance from the resolver's container by its id.
\<close>

record ParameterResolver =
  Resolve :: "val \<Rightarrow> rtype \<Rightarrow> err + val"
  Get :: "string \<Rightarrow> err + val"

subsection \<open>Arguments\<close>

text \<open>\<^verbatim>\<open>reflect.Value.Interface\<close> panics on the zero Value.\<close>

fun Interface :: "val \<Rightarrow> err + val" where
  "Interface VNil = Inl (Panic ''reflect: call of reflect.Value.Interface on zero Value'')"
| "Interface v = Inr v"

fun typeFactory_Arguments_loop :: "val list \<Rightarrow> err + val list" where
  "typeFactory_Arguments_loop [] = Inr []"
| "typeFactory_Arguments_loop (argument # rest) =
     (case Interface argument of
        Inl e \<Rightarrow> Inl e
      | Inr x \<Rightarrow>
          (case typeFactory_Arguments_loop rest of
             Inl e \<Rightarrow> Inl e
           | Inr args \<Rightarrow> Inr (x # args)))"

definition typeFactory_Arguments :: "typeFactory \<Rightarrow> err + val list" where
  "typeFactory_Arguments t = typeFactory_Arguments_loop (factoryArguments t)"

subsection \<open>Generation\<close>

definition invalidReferencedTypeErr ::
  "runtime \<Rightarrow> typeFactory \<Rightarrow> string \<Rightarrow> val \<Rightarrow> nat \<Rightarrow> err" where
  \<open>invalidReferencedTypeErr rt t typeID typeInstance i =
     (let factoryName = last (Split (FuncName rt (factory t)) CHR ''/'');
          factoryArguments = map TypeString (inputs (factoryType t))
      in Errorf ''the referenced type "@%s" (type %T) can not be passed as argument %d to the function signature %s(%s)''
           [Str typeID, Inst typeInstance, Num (int i + 1), Str factoryName,
            Str (Join factoryArguments '', '')])\<close>

text \<open>
  The loop over the fixed arguments, from position \<open>i\<close> on: each is resolved against the
  type of the input at its position, and the first error ends the loop.
\<close>

fun resolveFixed ::
  "runtime \<Rightarrow> ParameterResolver \<Rightarrow> typeFactory \<Rightarrow> nat \<Rightarrow> val list \<Rightarrow> err + val list" where
  "resolveFixed rt r t i [] = Inr []"
| "resolveFixed rt r t i (argument # rest) =
     (case In (factoryType t) i of
        None \<Rightarrow> Inl (Panic ''reflect: index out of range'')
      | Some expected \<Rightarrow>
          (case Resolve r argument expected of
             Inl (TypeReferenceError typeID typeInstance) \<Rightarrow>
               Inl (invalidReferencedTypeErr rt t typeID typeInstance i)
           | Inl e \<Rightarrow> Inl e
           | Inr v \<Rightarrow>
               (case resolveFixed rt r t (Suc i) rest of
                  Inl e \<Rightarrow> Inl e
                | Inr args \<Rightarrow> Inr (v # args))))"

text \<open>
  \<^verbatim>\<open>reflect.MakeSlice\<close> panics on a type that is no slice type and gives a slice of zero
  values of the element type otherwise; \<^verbatim>\<open>variadicSlice.Index(i).Set(x)\<close> panics
  when the index is out of range, when \<open>x\<close> is the zero Value and when the type of \<open>x\<close> is not
  assignable to the element type.
\<close>

definition Zero :: "rtype \<Rightarrow> val" where
  "Zero t =
     (if t = TNamed PString ''string'' then VString []
      else if t = TNamed PInt ''int'' then VInt 0
      else if t = TNamed PBool ''bool'' then VBool False
      else VOther t 0)"

definition SetIndex :: "runtime \<Rightarrow> rtype \<Rightarrow> val list \<Rightarrow> nat \<Rightarrow> val \<Rightarrow> err + val list" where
  "SetIndex rt elemT slice i x =
     (if \<not> i < length slice then Inl (Panic ''reflect: slice index out of range'')
      else case TypeOf x of
        None \<Rightarrow> Inl (Panic ''reflect: call of reflect.Value.Set on zero Value'')
      | Some tx \<Rightarrow>
          if AssignableTo rt tx elemT then Inr (slice[i := x])
          else Inl (Panic ''reflect.Set: value is not assignable''))"

text \<open>
  The loop over the variadic tail: \<open>i\<close> counts from the start of the tail, as the loop
  variable of the source does, \<open>slice\<close> is the content of \<^verbatim>\<open>variadicSlice\<close> so far.
\<close>

fun resolveTail ::
  "runtime \<Rightarrow> ParameterResolver \<Rightarrow> typeFactory \<Rightarrow> rtype \<Rightarrow> nat \<Rightarrow> val list \<Rightarrow> val list
     \<Rightarrow> err + val list" where
  "resolveTail rt r t expectedType i slice [] = Inr slice"
| "resolveTail rt r t expectedType i slice (argument # rest) =
     (case Resolve r argument expectedType of
        Inl (TypeReferenceError typeID typeInstance) \<Rightarrow>
          Inl (invalidReferencedTypeErr rt t typeID typeInstance i)
      | Inl e \<Rightarrow> Inl e
      | Inr resolvedArgument \<Rightarrow>
          (case SetIndex rt expectedType slice i resolvedArgument of
             Inl e \<Rightarrow> Inl e
           | Inr slice' \<Rightarrow> resolveTail rt r t expectedType (Suc i) slice' rest))"

text \<open>
  The slice expressions of the source panic when \<^verbatim>\<open>actualNumberOfArgs - 1\<close> is beyond the
  length of the arguments. Past that test, \<^verbatim>\<open>n = len - actualNumberOfArgs + 1\<close> is not negative;
  it is written with the addition first, so that the subtraction on \<open>nat\<close> is exact.
\<close>

definition generateVariadicFactoryArguments ::
  "runtime \<Rightarrow> ParameterResolver \<Rightarrow> typeFactory \<Rightarrow> err + val list" where
  "generateVariadicFactoryArguments rt r t =
     (let actualNumberOfArgs = NumIn (factoryType t) in
      if actualNumberOfArgs = 0 \<or> length (factoryArguments t) < actualNumberOfArgs - 1
      then Inl (Panic ''slice bounds out of range'')
      else case resolveFixed rt r t 0 (take (actualNumberOfArgs - 1) (factoryArguments t)) of
        Inl e \<Rightarrow> Inl e
      | Inr fixedArgs \<Rightarrow>
          let n = length (factoryArguments t) + 1 - actualNumberOfArgs in
          (case In (factoryType t) (actualNumberOfArgs - 1) of
             None \<Rightarrow> Inl (Panic ''reflect: index out of range'')
           | Some variadicType \<Rightarrow>
               (case variadicType of
                  TSlice expectedType \<Rightarrow>
                    (case resolveTail rt r t expectedType 0 (replicate n (Zero expectedType))
                            (drop (actualNumberOfArgs - 1) (factoryArguments t)) of
                       Inl e \<Rightarrow> Inl e
                     | Inr variadicSlice \<Rightarrow>
                         Inr (fixedArgs @ [VSlice expectedType variadicSlice]))
                | _ \<Rightarrow> Inl (Panic ''reflect.MakeSlice of non-slice type''))))"

definition generateFactoryArguments ::
  "runtime \<Rightarrow> ParameterResolver \<Rightarrow> typeFactory \<Rightarrow> err + val list" where
  "generateFactoryArguments rt r t =
     (if IsVariadic (factoryType t) then generateVariadicFactoryArguments rt r t
      else resolveFixed rt r t 0 (factoryArguments t))"

definition typeFactory_Generate ::
  "runtime \<Rightarrow> ParameterResolver \<Rightarrow> typeFactory \<Rightarrow> err + val" where
  "typeFactory_Generate rt r t =
     (case generateFactoryArguments rt r t of
        Inl e \<Rightarrow> Inl e
      | Inr args \<Rightarrow>
          (case Invoke rt (factory t) args of
             Inl e \<Rightarrow> Inl e
           | Inr [] \<Rightarrow> Inl (Panic ''no return parameter found. this should never ever happen'')
           | Inr (result # others) \<Rightarrow> Inr result))"

subsection \<open>The alias factory\<close>

text \<open>
  Modelled from the spec: the alias factory is not among the sources, only its test is.
  The spec: \<^verbatim>\<open>Arguments()\<close> yields one raw argument, \<^verbatim>\<open>"@targetID"\<close>; \<^verbatim>\<open>Generate\<close> forwards to
  the container's retrieval of the target; with a member suffix \<^verbatim>\<open>"id::Member"\<close> it fetches
  the target instance, locates the exposed callable member of that name and returns a
  callable bound to the instance.
\<close>

definition NewAliasType :: "string \<Rightarrow> TypeFactory" where
  "NewAliasType typeID = AliasType typeID"

definition aliasType_Arguments :: "string \<Rightarrow> val list" where
  "aliasType_Arguments typeID = [VString (''@'' @ typeID)]"

fun splitMember :: "string \<Rightarrow> string \<times> string option" where
  "splitMember [] = ([], None)"
| "splitMember (c # cs) =
     (if c = CHR '':'' \<and> take 1 cs = '':'' then ([], Some (drop 1 cs))
      else (case splitMember cs of (target, member) \<Rightarrow> (c # target, member)))"

definition aliasType_Generate :: "runtime \<Rightarrow> ParameterResolver \<Rightarrow> string \<Rightarrow> err + val" where
  "aliasType_Generate rt r typeID =
     (case splitMember typeID of
        (target, None) \<Rightarrow> Get r target
      | (target, Some member) \<Rightarrow>
          (case Get r target of
             Inl e \<Rightarrow> Inl e
           | Inr instance \<Rightarrow>
               (case MethodByName rt instance member of
                  None \<Rightarrow> Inl (Errorf ''type %q has no method %q'' [Str target, Str member])
                | Some (ft, body) \<Rightarrow> Inr (VBound ft instance member))))"

text \<open>
  Modelled from the spec: the call of a generated value, as the alias test makes it
  (\<^verbatim>\<open>generated.(func(string) string)("TEST")\<close>). A method value closes over its instance: its
  call runs the method of that name on that instance. Any other function value is called
  by the run-time system.
\<close>

definition callValue :: "runtime \<Rightarrow> val \<Rightarrow> val list \<Rightarrow> err + val list" where
  "callValue rt f args =
     (case f of
        VBound ft x m \<Rightarrow>
          (case MethodByName rt x m of
             None \<Rightarrow> Inl (Panic ''reflect: call of a method that does not exist'')
           | Some (ft', body) \<Rightarrow> body args)
      | _ \<Rightarrow> Invoke rt f args)"

subsection \<open>The factory interface\<close>

text \<open>
  Modelled from the spec: an invalid factory always fails generation with its recorded
  error. The spec says nothing of the arguments of an invalid factory.
\<close>

fun Arguments :: "TypeFactory \<Rightarrow> err + val list" where
  "Arguments (InvalidType e) = Inr []"
| "Arguments (FuncType t) = typeFactory_Arguments t"
| "Arguments (AliasType typeID) = Inr (aliasType_Arguments typeID)"

fun Generate :: "runtime \<Rightarrow> ParameterResolver \<Rightarrow> TypeFactory \<Rightarrow> err + val" where
  "Generate rt r (InvalidType e) = Inl e"
| "Generate rt r (FuncType t) = typeFactory_Generate rt r t"
| "Generate rt r (AliasType typeID) = aliasType_Generate rt r typeID"

section \<open>Validation\<close>

text \<open>
  The registry is a Go map from type ids to factories. A \<^verbatim>\<open>range\<close> over it visits every
  entry once, in an order Go leaves open: an iteration of a registry is any list of its
  entries without a repeated key.
\<close>

type_synonym TypeRegistry = "string \<rightharpoonup> TypeFactory"

definition iteration :: "TypeRegistry \<Rightarrow> (string \<times> TypeFactory) list \<Rightarrow> bool" where
  "iteration registry entries = (distinct (map fst entries) \<and> map_of entries = registry)"

text \<open>
  \<^verbatim>\<open>NoInvalidTypesConstraint.Validate\<close>, along one iteration of the registry. The type
  assertion \<^verbatim>\<open>typeFactory.(error)\<close> panics on a factory that is no error.
\<close>

fun Validate :: "(string \<times> TypeFactory) list \<Rightarrow> err option" where
  "Validate [] = None"
| "Validate ((typeID, typeFactory) # rest) =
     (if IsValid typeFactory = False
      then (case typeFactory of
              InvalidType e \<Rightarrow> Some (Errorf ''type %q is invalid: %s'' [Str typeID, ErrOp e])
            | _ \<Rightarrow> Some (Panic ''interface conversion: not an error''))
      else Validate rest)"

section \<open>Example inputs\<close>

text \<open>
  The constructors and errors the concrete instances below are evaluated at:
  \<^verbatim>\<open>func NewMockType(s string, b bool) *MockType\<close>,
  \<^verbatim>\<open>func NewVariadicMockType(b bool, s string, rest ...string) *MockType\<close> and
  \<^verbatim>\<open>func NewCounter(start int) *MockType\<close>.
\<close>

definition MockType :: rtype where
  "MockType = TPtr (TNamed PStruct ''tests.MockType'')"

definition NewMockType :: val where
  "NewMockType = VOther (TFunc [TNamed PString ''string'', TNamed PBool ''bool''] None [MockType]) 1"

definition NewVariadicMockType :: val where
  "NewVariadicMockType =
     VOther (TFunc [TNamed PBool ''bool'', TNamed PString ''string'']
               (Some (TNamed PString ''string'')) [MockType]) 2"

definition NewCounter :: val where
  "NewCounter = VOther (TFunc [TNamed PInt ''int''] None [MockType]) 3"

definition noReturnErr :: err where
  "noReturnErr = Errorf ''invalid number of return parameters: %d'' [Num 0]"

definition noFunctionErr :: err where
  "noFunctionErr = Errorf ''the given factoryFunction must be a function (given %q)'' [KindOp KInt]"

text \<open>
  Modelled from the spec: \<^verbatim>\<open>tests.MockType\<close> is not among the sources. Its state is the field
  \<^verbatim>\<open>StringParameter\<close>, and its method \<^verbatim>\<open>ReturnString\<close> concatenates the state, a blank and
  its argument, as the alias test expects.
\<close>

definition mockInstance :: "string \<Rightarrow> val" where
  "mockInstance s = VObject MockType [(''StringParameter'', VString s)]"

fun ReturnString :: "val \<Rightarrow> val list \<Rightarrow> err + val list" where
  "ReturnString (VObject t fs) [VString suffix] =
     (case map_of fs ''StringParameter'' of
        Some (VString s) \<Rightarrow> Inr [VString (s @ '' '' @ suffix)]
      | _ \<Rightarrow> Inl (Panic ''no field StringParameter''))"
| "ReturnString x args = Inl (Panic ''reflect: Call with wrong arguments'')"

text \<open>
  A run-time system that knows the example constructors and the mock type: a constructor
  returns an instance that records the values it was called with, and two types are
  assignable when they are equal. And a resolver bound to a container with the one instance
  \<^verbatim>\<open>foo\<close>: a type reference other than \<^verbatim>\<open>@foo\<close> fails with the resolver's reference error,
  every other raw argument resolves to itself.
\<close>

definition testRuntime :: runtime where
  "testRuntime =
     \<lparr>FuncName = (\<lambda>f. if f = NewMockType then ''github.com/fgrosse/goldi/tests.NewMockType''
                      else if f = NewVariadicMockType
                      then ''github.com/fgrosse/goldi/tests.NewVariadicMockType''
                      else ''main.NewCounter''),
      AssignableTo = (\<lambda>given wanted. given = wanted),
      MethodByName = (\<lambda>x m. if TypeOf x = Some MockType \<and> m = ''ReturnString''
                            then Some (TFunc [TNamed PString ''string''] None
                                         [TNamed PString ''string''], ReturnString x)
                            else None),
      Invoke = (\<lambda>f args. case f of
                  VBound ft x m \<Rightarrow>
                    if m = ''ReturnString'' then ReturnString x args
                    else Inl (Panic ''unknown method'')
                | _ \<Rightarrow>
                    (case args of
                       [] \<Rightarrow> Inl (Panic ''reflect: Call with too few input arguments'')
                     | a # rest \<Rightarrow>
                         Inr [VObject MockType
                                [(''Arguments'', VSlice (TInterface ''interface {}'') args)]]))\<rparr>"

definition testResolver :: ParameterResolver where
  "testResolver =
     \<lparr>Resolve = (\<lambda>argument expected. case argument of
                   VString s \<Rightarrow>
                     if IsTypeReference s \<and> s \<noteq> ''@foo''
                     then Inl (TypeReferenceError (tl s) VNil)
                     else if s = ''@foo'' then Inr (mockInstance ''I was created by @foo'')
                     else Inr argument
                 | _ \<Rightarrow> Inr argument),
      Get = (\<lambda>typeID. if typeID = ''foo'' then Inr (mockInstance ''I was created by @foo'')
                      else Inl (Errorf ''the type %q has not been registered'' [Str typeID]))\<rparr>"

text \<open>\<^verbatim>\<open>func NewPointerHolder(p *MockType) *MockType\<close>.\<close>

definition NewPointerHolder :: val where
  "NewPointerHolder = VOther (TFunc [MockType] None [MockType]) 4"

section \<open>Notions the statements use\<close>

text \<open>
  The argument at position \<open>i\<close> is a string that is neither a placeholder nor a reference,
  where the constructor expects a parameter of another kind than string.
\<close>

abbreviation stringOfOtherKind :: "rtype \<Rightarrow> nat \<Rightarrow> val \<Rightarrow> bool" where
  "stringOfOtherKind t i a \<equiv>
     (\<exists>s expected. a = VString s \<and> \<not> IsParameterOrTypeReference s \<and>
        expectedArgumentType t i = Some expected \<and> Kind expected \<noteq> KString)"

text \<open>The count checks of \<^verbatim>\<open>newTypeFromFactoryFunction\<close> pass.\<close>

abbreviation countAccepted :: "rtype \<Rightarrow> nat \<Rightarrow> bool" where
  "countAccepted t k \<equiv> (if IsVariadic t then NumIn t \<le> k else NumIn t = k)"

section \<open>Construction\<close>

lemma expectedArgumentType_TFunc:
  "expectedArgumentType (TFunc fixed va outs) i = (if i < length fixed then Some (fixed ! i) else va)"
  by (cases va) (auto simp: expectedArgumentType_def NumIn_def In_def Let_def nth_append)

lemma ValueKind_VString [simp]: "ValueKind (VString s) = KString"
  by (simp add: ValueKind_def)

lemma stringArg_Some: "stringArg a = Some s \<longleftrightarrow> a = VString s"
  by (cases a) auto

lemma buildFrom_accepts:
  assumes "\<forall>j<length ps. expectedArgumentType t (i + j) \<noteq> None"
    and "\<forall>j<length ps. \<not> stringOfOtherKind t (i + j) (ps ! j)"
  shows "buildFrom t i ps = Inr ps"
  using assms
proof (induction ps arbitrary: i)
  case Nil
  then show ?case by simp
next
  case (Cons a ps)
  from Cons.prems(1) have e0: "expectedArgumentType t i \<noteq> None" by fastforce
  then obtain ex where ex: "expectedArgumentType t i = Some ex" by auto
  from Cons.prems(2) have "\<not> stringOfOtherKind t (i + 0) ((a # ps) ! 0)" by blast
  with ex have ok: "\<not> (ValueKind a \<noteq> Kind ex \<and>
      (case stringArg a of Some s \<Rightarrow> \<not> IsParameterOrTypeReference s | None \<Rightarrow> False))"
    by (cases a) auto
  have "\<forall>j<length ps. expectedArgumentType t (Suc i + j) \<noteq> None"
    using Cons.prems(1) by fastforce
  moreover have "\<forall>j<length ps. \<not> stringOfOtherKind t (Suc i + j) (ps ! j)"
  proof (intro allI impI)
    fix j assume "j < length ps"
    then have "Suc j < length (a # ps)" by simp
    with Cons.prems(2) have "\<not> stringOfOtherKind t (i + Suc j) ((a # ps) ! Suc j)" by blast
    then show "\<not> stringOfOtherKind t (Suc i + j) (ps ! j)" by simp
  qed
  ultimately have "buildFrom t (Suc i) ps = Inr ps" by (rule Cons.IH)
  with ex ok show ?case by simp
qed

lemma buildFrom_rejects:
  assumes "\<forall>j<length ps. expectedArgumentType t (i + j) \<noteq> None"
    and "j < length ps" and "stringOfOtherKind t (i + j) (ps ! j)"
    and "\<forall>j'<j. \<not> stringOfOtherKind t (i + j') (ps ! j')"
  shows "\<exists>expected. expectedArgumentType t (i + j) = Some expected \<and>
           buildFrom t i ps =
             Inl (Errorf ''input argument %d is of type %s but needs to be a %s''
                    [Num (int (i + j) + 1), KindOp KString, KindOp (Kind expected)])"
  using assms
proof (induction ps arbitrary: i j)
  case Nil
  then show ?case by simp
next
  case (Cons a ps)
  from Cons.prems(1) have "expectedArgumentType t (i + 0) \<noteq> None" by fastforce
  then obtain ex where ex: "expectedArgumentType t i = Some ex" by auto
  show ?case
  proof (cases j)
    case 0
    with Cons.prems(3) ex show ?thesis by auto
  next
    case (Suc k)
    from Cons.prems(4) Suc have "\<not> stringOfOtherKind t (i + 0) ((a # ps) ! 0)" by blast
    with ex have ok: "\<not> (ValueKind a \<noteq> Kind ex \<and>
        (case stringArg a of Some s \<Rightarrow> \<not> IsParameterOrTypeReference s | None \<Rightarrow> False))"
      by (cases a) auto
    have 1: "\<forall>j<length ps. expectedArgumentType t (Suc i + j) \<noteq> None"
      using Cons.prems(1) by fastforce
    have 2: "k < length ps" using Cons.prems(2) Suc by simp
    have 3: "stringOfOtherKind t (Suc i + k) (ps ! k)" using Cons.prems(3) Suc by simp
    have 4: "\<forall>j'<k. \<not> stringOfOtherKind t (Suc i + j') (ps ! j')"
    proof (intro allI impI)
      fix j' assume "j' < k"
      then have "Suc j' < j" using Suc by simp
      with Cons.prems(4) have "\<not> stringOfOtherKind t (i + Suc j') ((a # ps) ! Suc j')" by blast
      then show "\<not> stringOfOtherKind t (Suc i + j') (ps ! j')" by simp
    qed
    from Cons.IH [OF 1 2 3 4] obtain expected where
      "expectedArgumentType t (Suc i + k) = Some expected"
      "buildFrom t (Suc i) ps =
         Inl (Errorf ''input argument %d is of type %s but needs to be a %s''
                [Num (int (Suc i + k) + 1), KindOp KString, KindOp (Kind expected)])"
      by blast
    with ex ok Suc show ?thesis by simp
  qed
qed

lemma first_offender:
  assumes "\<exists>j<n. P (j::nat)"
  shows "\<exists>j<n. P j \<and> (\<forall>j'<j. \<not> P j')"
proof -
  from assms obtain j where j: "j < n" "P j" by blast
  define m where "m = (LEAST k. P k)"
  have "P m" unfolding m_def using j(2) by (rule LeastI)
  moreover have "m \<le> j" unfolding m_def using j(2) by (rule Least_le)
  moreover have "\<forall>j'<m. \<not> P j'" unfolding m_def using not_less_Least by blast
  ultimately have "m < n \<and> P m \<and> (\<forall>j'<m. \<not> P j')" using j(1) by simp
  then show ?thesis by blast
qed

lemma NumOut_TFunc [simp]: "NumOut (TFunc fixed va outs) = length outs"
  by (simp add: NumOut_def)

lemma NumIn_TFunc [simp]:
  "NumIn (TFunc fixed va outs) = length fixed + (case va of None \<Rightarrow> 0 | Some e \<Rightarrow> 1)"
  by (cases va) (simp_all add: NumIn_def)

lemma Out_single [simp]: "Out (TFunc fixed va [out]) 0 = Some out"
  by (simp add: Out_def)

lemma Kind_KFunc: "Kind t = KFunc \<longleftrightarrow> (\<exists>fixed va outs. t = TFunc fixed va outs)"
proof (cases t)
  case (TNamed p n)
  then show ?thesis by (cases p) simp_all
qed simp_all

lemma expected_defined:
  assumes "countAccepted (TFunc fixed va outs) (length ps)" and "j < length ps"
  shows "expectedArgumentType (TFunc fixed va outs) j \<noteq> None"
  using assms by (cases va) (auto simp: expectedArgumentType_TFunc)

lemma build_accepts:
  assumes "countAccepted (TFunc fixed va outs) (length ps)"
    and "\<forall>j<length ps. \<not> stringOfOtherKind (TFunc fixed va outs) j (ps ! j)"
  shows "buildFactoryCallArguments (TFunc fixed va outs) ps = Inr ps"
  unfolding buildFactoryCallArguments_def
  using expected_defined [OF assms(1)] assms(2) by (intro buildFrom_accepts) simp_all

lemma build_rejects:
  assumes "countAccepted (TFunc fixed va outs) (length ps)"
    and "\<exists>j<length ps. stringOfOtherKind (TFunc fixed va outs) j (ps ! j)"
  shows "\<exists>j expected. j < length ps \<and> stringOfOtherKind (TFunc fixed va outs) j (ps ! j) \<and>
           (\<forall>j'<j. \<not> stringOfOtherKind (TFunc fixed va outs) j' (ps ! j')) \<and>
           expectedArgumentType (TFunc fixed va outs) j = Some expected \<and>
           buildFactoryCallArguments (TFunc fixed va outs) ps =
             Inl (Errorf ''input argument %d is of type %s but needs to be a %s''
                    [Num (int j + 1), KindOp KString, KindOp (Kind expected)])"
proof -
  let ?t = "TFunc fixed va outs"
  from first_offender [OF assms(2)] obtain j where
    j: "j < length ps" "stringOfOtherKind ?t j (ps ! j)"
       "\<forall>j'<j. \<not> stringOfOtherKind ?t j' (ps ! j')"
    by blast
  have d: "\<forall>j<length ps. expectedArgumentType ?t (0 + j) \<noteq> None"
    using expected_defined [OF assms(1)] by simp
  from j have j2: "stringOfOtherKind ?t (0 + j) (ps ! j)" by simp
  from j have j3: "\<forall>j'<j. \<not> stringOfOtherKind ?t (0 + j') (ps ! j')" by simp
  from buildFrom_rejects [OF d j(1) j2 j3] j show ?thesis
    unfolding buildFactoryCallArguments_def by auto
qed

lemma newTypeFromFactoryFunction_accepts:
  assumes "Kind out = KPtr \<or> Kind out = KInterface"
    and "countAccepted (TFunc fixed va [out]) (length ps)"
    and "\<forall>j<length ps. \<not> stringOfOtherKind (TFunc fixed va [out]) j (ps ! j)"
  shows "newTypeFromFactoryFunction f (TFunc fixed va [out]) ps =
           Inr (FuncType \<lparr>factory = f, factoryType = TFunc fixed va [out], factoryArguments = ps\<rparr>)"
  using assms(1,2) build_accepts [OF assms(2,3)]
  by (cases va) (auto simp: newTypeFromFactoryFunction_def Let_def)

lemma newTypeFromFactoryFunction_rejects:
  assumes "Kind out = KPtr \<or> Kind out = KInterface"
    and "countAccepted (TFunc fixed va [out]) (length ps)"
    and "j < length ps" and "stringOfOtherKind (TFunc fixed va [out]) j (ps ! j)"
    and "\<forall>j'<j. \<not> stringOfOtherKind (TFunc fixed va [out]) j' (ps ! j')"
  shows "\<exists>expected. expectedArgumentType (TFunc fixed va [out]) j = Some expected \<and>
           newTypeFromFactoryFunction f (TFunc fixed va [out]) ps =
             Inr (InvalidType (Errorf ''input argument %d is of type %s but needs to be a %s''
                    [Num (int j + 1), KindOp KString, KindOp (Kind expected)]))"
proof -
  let ?t = "TFunc fixed va [out]"
  have d: "\<forall>j<length ps. expectedArgumentType ?t (0 + j) \<noteq> None"
    using expected_defined [OF assms(2)] by simp
  from assms have j2: "stringOfOtherKind ?t (0 + j) (ps ! j)" by simp
  from assms have j3: "\<forall>j'<j. \<not> stringOfOtherKind ?t (0 + j') (ps ! j')" by simp
  from buildFrom_rejects [OF d assms(3) j2 j3] obtain expected where
    e: "expectedArgumentType ?t j = Some expected"
       "buildFactoryCallArguments ?t ps =
          Inl (Errorf ''input argument %d is of type %s but needs to be a %s''
                 [Num (int j + 1), KindOp KString, KindOp (Kind expected)])"
    unfolding buildFactoryCallArguments_def by auto
  from assms(1,2) e(2) have
    "newTypeFromFactoryFunction f ?t ps =
       Inr (InvalidType (Errorf ''input argument %d is of type %s but needs to be a %s''
              [Num (int j + 1), KindOp KString, KindOp (Kind expected)]))"
    by (cases va) (auto simp: newTypeFromFactoryFunction_def Let_def newInvalidType_def)
  with e(1) show ?thesis by blast
qed



lemma Generate_invalid: "Generate rt r (InvalidType e) = Inl e"
  by simp

lemma NewType_cases:
  assumes "TypeOf f = Some ft"
  shows "if Kind ft \<noteq> KFunc \<or> NumOut ft \<noteq> 1 \<or>
            (\<exists>out. Out ft 0 = Some out \<and> Kind out \<noteq> KInterface \<and> Kind out \<noteq> KPtr) \<or>
            (IsVariadic ft \<and> length ps < NumIn ft) \<or>
            (\<not> IsVariadic ft \<and> NumIn ft \<noteq> length ps) \<or>
            (\<exists>j<length ps. stringOfOtherKind ft j (ps ! j))
         then \<exists>e. NewType f ps = Inr (InvalidType e) \<and>
                  (\<forall>rt r. Generate rt r (InvalidType e) = Inl e)
         else NewType f ps = Inr (FuncType \<lparr>factory = f, factoryType = ft, factoryArguments = ps\<rparr>)"
proof (cases "Kind ft = KFunc")
  case False
  with assms show ?thesis by (simp add: NewType_def newInvalidType_def)
next
  case True
  then obtain fixed va outs where ft: "ft = TFunc fixed va outs"
    using Kind_KFunc by blast
  have nt: "NewType f ps = newTypeFromFactoryFunction f ft ps"
    using assms True by (simp add: NewType_def)
  show ?thesis
  proof (cases "\<exists>out. outs = [out]")
    case False
    then have "length outs \<noteq> 1" by (cases outs) auto
    then show ?thesis
      unfolding nt ft by (simp add: newTypeFromFactoryFunction_def newInvalidType_def)
  next
    case True
    then obtain out where outs: "outs = [out]" by blast
    show ?thesis
    proof (cases "Kind out = KPtr \<or> Kind out = KInterface")
      case False
      then show ?thesis
        unfolding nt ft outs by (simp add: newTypeFromFactoryFunction_def newInvalidType_def)
    next
      case ret: True
      show ?thesis
      proof (cases "countAccepted ft (length ps)")
        case False
        then show ?thesis
          unfolding nt ft outs using ret
          by (cases va) (auto simp: newTypeFromFactoryFunction_def newInvalidType_def)
      next
        case cnt: True
        show ?thesis
        proof (cases "\<exists>j<length ps. stringOfOtherKind ft j (ps ! j)")
          case False
          then have no: "\<forall>j<length ps. \<not> stringOfOtherKind (TFunc fixed va [out]) j (ps ! j)"
            unfolding ft outs by blast
          from newTypeFromFactoryFunction_accepts [OF ret cnt [unfolded ft outs] no, of f]
          have "NewType f ps =
                  Inr (FuncType \<lparr>factory = f, factoryType = ft, factoryArguments = ps\<rparr>)"
            unfolding nt ft outs .
          moreover have "\<not> (Kind ft \<noteq> KFunc \<or> NumOut ft \<noteq> 1 \<or>
            (\<exists>out. Out ft 0 = Some out \<and> Kind out \<noteq> KInterface \<and> Kind out \<noteq> KPtr) \<or>
            (IsVariadic ft \<and> length ps < NumIn ft) \<or>
            (\<not> IsVariadic ft \<and> NumIn ft \<noteq> length ps) \<or>
            (\<exists>j<length ps. stringOfOtherKind ft j (ps ! j)))"
            using False ret cnt unfolding ft outs by (cases va) auto
          ultimately show ?thesis by simp
        next
          case True
          from first_offender [OF True] obtain j where
            j: "j < length ps" "stringOfOtherKind (TFunc fixed va [out]) j (ps ! j)"
               "\<forall>j'<j. \<not> stringOfOtherKind (TFunc fixed va [out]) j' (ps ! j')"
            unfolding ft outs by blast
          from newTypeFromFactoryFunction_rejects [OF ret cnt [unfolded ft outs] j, of f]
          have "\<exists>e. NewType f ps = Inr (InvalidType e)"
            unfolding nt ft outs by blast
          with True show ?thesis by simp
        qed
      qed
    qed
  qed
qed


lemma IsParameterOrTypeReference_plain [simp]:
  "\<not> IsParameterOrTypeReference ''foo''" "\<not> IsParameterOrTypeReference ''yes''"
  "\<not> IsParameterOrTypeReference ''a''" "\<not> IsParameterOrTypeReference ''b''"
  by (simp_all add: IsParameterOrTypeReference_def IsParameter_def IsTypeReference_def)

text \<open>
  C5, amended. For a supplied value that is not nil: the factory is invalid when the value
  is no function, when the function has no or several results, when its result is neither a
  pointer nor an interface, when the number of arguments differs from the number of inputs
  (or is below it, for a variadic function), and when an argument is a plain string at a
  parameter of another kind; every generation of that factory fails with the recorded
  error. In every other case the factory is valid and keeps the function and the arguments.
\<close>

theorem NewType_validity:
  assumes "TypeOf f = Some ft"
  shows "if Kind ft \<noteq> KFunc \<or> NumOut ft \<noteq> 1 \<or>
            (\<exists>out. Out ft 0 = Some out \<and> Kind out \<noteq> KInterface \<and> Kind out \<noteq> KPtr) \<or>
            (IsVariadic ft \<and> length ps < NumIn ft) \<or>
            (\<not> IsVariadic ft \<and> NumIn ft \<noteq> length ps) \<or>
            (\<exists>j<length ps. stringOfOtherKind ft j (ps ! j))
         then \<exists>e. NewType f ps = Inr (InvalidType e) \<and>
                  (\<forall>rt r. Generate rt r (InvalidType e) = Inl e)
         else NewType f ps = Inr (FuncType \<lparr>factory = f, factoryType = ft, factoryArguments = ps\<rparr>)"
  using assms by (rule NewType_cases)

theorem NewType_validity_witness:
  "TypeOf NewMockType = Some (TFunc [TNamed PString ''string'', TNamed PBool ''bool''] None [MockType]) \<and>
   NewType NewMockType [VString ''foo'', VBool True] =
     Inr (FuncType \<lparr>factory = NewMockType,
            factoryType = TFunc [TNamed PString ''string'', TNamed PBool ''bool''] None [MockType],
            factoryArguments = [VString ''foo'', VBool True]\<rparr>) \<and>
   TypeOf (VInt 5) = Some (TNamed PInt ''int'') \<and>
   (\<exists>e. NewType (VInt 5) [] = Inr (InvalidType e) \<and>
        (\<forall>rt r. Generate rt r (InvalidType e) = Inl e))"
proof -
  have h1: "TypeOf NewMockType =
      Some (TFunc [TNamed PString ''string'', TNamed PBool ''bool''] None [MockType])"
    by (simp add: NewMockType_def)
  have h2: "TypeOf (VInt 5) = Some (TNamed PInt ''int'')" by simp
  have ok: "\<not> (\<exists>j<length [VString ''foo'', VBool True].
      stringOfOtherKind (TFunc [TNamed PString ''string'', TNamed PBool ''bool''] None [MockType]) j
        ([VString ''foo'', VBool True] ! j))"
    by (auto simp: expectedArgumentType_TFunc less_Suc_eq)
  from NewType_validity [OF h1, of "[VString ''foo'', VBool True]"] ok
  have a: "NewType NewMockType [VString ''foo'', VBool True] =
     Inr (FuncType \<lparr>factory = NewMockType,
            factoryType = TFunc [TNamed PString ''string'', TNamed PBool ''bool''] None [MockType],
            factoryArguments = [VString ''foo'', VBool True]\<rparr>)"
    by (simp add: MockType_def Out_def)
  from NewType_validity [OF h2, of "[]"]
  have b: "\<exists>e. NewType (VInt 5) [] = Inr (InvalidType e) \<and>
        (\<forall>rt r. Generate rt r (InvalidType e) = Inl e)"
    by simp
  from h1 h2 a b show ?thesis by blast
qed

text \<open>
  C5, as the claim states it, fails: a function with one pointer result and as many
  arguments as inputs still gives an invalid factory.
\<close>

theorem NewType_validity_counterexample:
  "TypeOf NewMockType = Some (TFunc [TNamed PString ''string'', TNamed PBool ''bool''] None [MockType]) \<and>
   Kind (TFunc [TNamed PString ''string'', TNamed PBool ''bool''] None [MockType]) = KFunc \<and>
   NumOut (TFunc [TNamed PString ''string'', TNamed PBool ''bool''] None [MockType]) = 1 \<and>
   Out (TFunc [TNamed PString ''string'', TNamed PBool ''bool''] None [MockType]) 0 = Some MockType \<and>
   Kind MockType = KPtr \<and>
   \<not> IsVariadic (TFunc [TNamed PString ''string'', TNamed PBool ''bool''] None [MockType]) \<and>
   NumIn (TFunc [TNamed PString ''string'', TNamed PBool ''bool''] None [MockType]) =
     length [VInt 42, VString ''yes''] \<and>
   NewType NewMockType [VInt 42, VString ''yes''] =
     Inr (InvalidType (Errorf ''input argument %d is of type %s but needs to be a %s''
            [Num 2, KindOp KString, KindOp KBool]))"
  by (simp add: NewMockType_def MockType_def NewType_def newTypeFromFactoryFunction_def
      buildFactoryCallArguments_def expectedArgumentType_TFunc newInvalidType_def ValueKind_def)

text \<open>
  C10. For a constructor that passes the checks on its results and on the number of
  arguments, \<^verbatim>\<open>NewType\<close> yields an invalid factory exactly when some raw argument is a string,
  neither a placeholder nor a reference, at a parameter whose kind is not string. Arguments
  that are not such strings are accepted whatever their kinds: the factory is valid and
  keeps them as they are, and a mismatch shows only when the factory is used.
\<close>

theorem eager_check_rejects_plain_strings_only:
  assumes "TypeOf f = Some (TFunc fixed va [out])"
    and "Kind out = KPtr \<or> Kind out = KInterface"
    and "if va = None then length ps = length fixed else length fixed + 1 \<le> length ps"
  shows "((\<exists>e. NewType f ps = Inr (InvalidType e)) \<longleftrightarrow>
            (\<exists>j<length ps. stringOfOtherKind (TFunc fixed va [out]) j (ps ! j))) \<and>
         ((\<forall>j<length ps. \<forall>s. ps ! j = VString s \<longrightarrow> IsParameterOrTypeReference s) \<longrightarrow>
            NewType f ps =
              Inr (FuncType \<lparr>factory = f, factoryType = TFunc fixed va [out],
                     factoryArguments = ps\<rparr>))"
proof -
  let ?t = "TFunc fixed va [out]"
  have nt: "NewType f ps = newTypeFromFactoryFunction f ?t ps"
    using assms(1) by (simp add: NewType_def)
  have cnt: "countAccepted ?t (length ps)"
    using assms(3) by (cases va) auto
  have acc: "NewType f ps = Inr (FuncType \<lparr>factory = f, factoryType = ?t, factoryArguments = ps\<rparr>)"
    if "\<forall>j<length ps. \<not> stringOfOtherKind ?t j (ps ! j)"
    unfolding nt using newTypeFromFactoryFunction_accepts [OF assms(2) cnt that] .
  have rej: "\<exists>e. NewType f ps = Inr (InvalidType e)"
    if "\<exists>j<length ps. stringOfOtherKind ?t j (ps ! j)"
  proof -
    from first_offender [OF that] obtain j where
      j: "j < length ps" "stringOfOtherKind ?t j (ps ! j)"
         "\<forall>j'<j. \<not> stringOfOtherKind ?t j' (ps ! j')"
      by blast
    from newTypeFromFactoryFunction_rejects [OF assms(2) cnt j, of f]
    show ?thesis unfolding nt by blast
  qed
  have 1: "(\<exists>e. NewType f ps = Inr (InvalidType e)) \<longleftrightarrow>
            (\<exists>j<length ps. stringOfOtherKind ?t j (ps ! j))"
  proof
    assume inv: "\<exists>e. NewType f ps = Inr (InvalidType e)"
    show "\<exists>j<length ps. stringOfOtherKind ?t j (ps ! j)"
    proof (rule ccontr)
      assume "\<not> (\<exists>j<length ps. stringOfOtherKind ?t j (ps ! j))"
      then have "\<forall>j<length ps. \<not> stringOfOtherKind ?t j (ps ! j)" by blast
      from acc [OF this] inv show False by auto
    qed
  next
    assume "\<exists>j<length ps. stringOfOtherKind ?t j (ps ! j)"
    then show "\<exists>e. NewType f ps = Inr (InvalidType e)" by (rule rej)
  qed
  have 2: "NewType f ps = Inr (FuncType \<lparr>factory = f, factoryType = ?t, factoryArguments = ps\<rparr>)"
    if "\<forall>j<length ps. \<forall>s. ps ! j = VString s \<longrightarrow> IsParameterOrTypeReference s"
  proof (rule acc)
    from that show "\<forall>j<length ps. \<not> stringOfOtherKind ?t j (ps ! j)" by blast
  qed
  from 1 2 show ?thesis by blast
qed

theorem eager_check_rejects_plain_strings_only_witness:
  "TypeOf NewCounter = Some (TFunc [TNamed PInt ''int''] None [MockType]) \<and>
   (Kind MockType = KPtr \<or> Kind MockType = KInterface) \<and>
   ValueKind (VBool True) \<noteq> Kind (TNamed PInt ''int'') \<and>
   NewType NewCounter [VBool True] =
     Inr (FuncType \<lparr>factory = NewCounter, factoryType = TFunc [TNamed PInt ''int''] None [MockType],
            factoryArguments = [VBool True]\<rparr>) \<and>
   (\<exists>e. NewType NewCounter [VString ''foo''] = Inr (InvalidType e))"
proof -
  have h1: "TypeOf NewCounter = Some (TFunc [TNamed PInt ''int''] None [MockType])"
    by (simp add: NewCounter_def)
  have h2: "Kind MockType = KPtr \<or> Kind MockType = KInterface"
    by (simp add: MockType_def)
  have h3: "if (None :: rtype option) = None then length [VBool True] = length [TNamed PInt ''int'']
            else length [TNamed PInt ''int''] + 1 \<le> length [VBool True]"
    by simp
  have h3': "if (None :: rtype option) = None then length [VString ''foo''] = length [TNamed PInt ''int'']
            else length [TNamed PInt ''int''] + 1 \<le> length [VString ''foo'']"
    by simp
  have k: "ValueKind (VBool True) \<noteq> Kind (TNamed PInt ''int'')"
    by (simp add: ValueKind_def)
  from eager_check_rejects_plain_strings_only [OF h1 h2 h3]
  have a: "NewType NewCounter [VBool True] =
     Inr (FuncType \<lparr>factory = NewCounter, factoryType = TFunc [TNamed PInt ''int''] None [MockType],
            factoryArguments = [VBool True]\<rparr>)"
    by simp
  from eager_check_rejects_plain_strings_only [OF h1 h2 h3']
  have b: "\<exists>e. NewType NewCounter [VString ''foo''] = Inr (InvalidType e)"
    by (simp add: expectedArgumentType_TFunc)
  from h1 h2 k a b show ?thesis by blast
qed


text \<open>
  C2, amended. The one check of argument values at registration is the kind check on plain
  strings: when some raw argument is a string, neither a placeholder nor a reference, at a
  parameter of another kind, the factory is invalid and its error gives the position, counted
  from one, of such an argument; otherwise the factory is valid whatever the shapes of the
  arguments are.
\<close>

theorem registration_checks_plain_strings:
  assumes "TypeOf f = Some (TFunc fixed va [out])"
    and "Kind out = KPtr \<or> Kind out = KInterface"
    and "if va = None then length ps = length fixed else length fixed + 1 \<le> length ps"
  shows "if \<exists>j<length ps. stringOfOtherKind (TFunc fixed va [out]) j (ps ! j)
         then \<exists>j s expected. j < length ps \<and> ps ! j = VString s \<and>
                \<not> IsParameterOrTypeReference s \<and>
                expectedArgumentType (TFunc fixed va [out]) j = Some expected \<and>
                Kind expected \<noteq> KString \<and>
                NewType f ps =
                  Inr (InvalidType (Errorf ''input argument %d is of type %s but needs to be a %s''
                         [Num (int j + 1), KindOp KString, KindOp (Kind expected)]))
         else NewType f ps =
                Inr (FuncType \<lparr>factory = f, factoryType = TFunc fixed va [out],
                       factoryArguments = ps\<rparr>)"
proof -
  let ?t = "TFunc fixed va [out]"
  have nt: "NewType f ps = newTypeFromFactoryFunction f ?t ps"
    using assms(1) by (simp add: NewType_def)
  have cnt: "countAccepted ?t (length ps)"
    using assms(3) by (cases va) auto
  show ?thesis
  proof (cases "\<exists>j<length ps. stringOfOtherKind ?t j (ps ! j)")
    case False
    then have "\<forall>j<length ps. \<not> stringOfOtherKind ?t j (ps ! j)" by blast
    from newTypeFromFactoryFunction_accepts [OF assms(2) cnt this, of f] False
    show ?thesis unfolding nt by simp
  next
    case True
    from first_offender [OF True] obtain j where
      j: "j < length ps" "stringOfOtherKind ?t j (ps ! j)"
         "\<forall>j'<j. \<not> stringOfOtherKind ?t j' (ps ! j')"
      by blast
    from newTypeFromFactoryFunction_rejects [OF assms(2) cnt j, of f] j(1,2)
    have "\<exists>j s expected. j < length ps \<and> ps ! j = VString s \<and>
                \<not> IsParameterOrTypeReference s \<and>
                expectedArgumentType ?t j = Some expected \<and>
                Kind expected \<noteq> KString \<and>
                NewType f ps =
                  Inr (InvalidType (Errorf ''input argument %d is of type %s but needs to be a %s''
                         [Num (int j + 1), KindOp KString, KindOp (Kind expected)]))"
      unfolding nt by fastforce
    with True show ?thesis by simp
  qed
qed

theorem registration_checks_plain_strings_witness:
  "TypeOf NewMockType = Some (TFunc [TNamed PString ''string'', TNamed PBool ''bool''] None [MockType]) \<and>
   (Kind MockType = KPtr \<or> Kind MockType = KInterface) \<and>
   NewType NewMockType [VInt 7, VOther MockType 9] =
     Inr (FuncType \<lparr>factory = NewMockType,
            factoryType = TFunc [TNamed PString ''string'', TNamed PBool ''bool''] None [MockType],
            factoryArguments = [VInt 7, VOther MockType 9]\<rparr>)"
proof -
  have h1: "TypeOf NewMockType =
      Some (TFunc [TNamed PString ''string'', TNamed PBool ''bool''] None [MockType])"
    by (simp add: NewMockType_def)
  have h2: "Kind MockType = KPtr \<or> Kind MockType = KInterface"
    by (simp add: MockType_def)
  have h3: "if (None :: rtype option) = None
            then length [VInt 7, VOther MockType 9] =
                 length [TNamed PString ''string'', TNamed PBool ''bool'']
            else length [TNamed PString ''string'', TNamed PBool ''bool''] + 1 \<le>
                 length [VInt 7, VOther MockType 9]"
    by simp
  have no: "\<not> (\<exists>j<length [VInt 7, VOther MockType 9].
      stringOfOtherKind (TFunc [TNamed PString ''string'', TNamed PBool ''bool''] None [MockType]) j
        ([VInt 7, VOther MockType 9] ! j))"
    by (auto simp: nth_Cons' split: if_splits)
  from registration_checks_plain_strings [OF h1 h2 h3] no
  have "NewType NewMockType [VInt 7, VOther MockType 9] =
     Inr (FuncType \<lparr>factory = NewMockType,
            factoryType = TFunc [TNamed PString ''string'', TNamed PBool ''bool''] None [MockType],
            factoryArguments = [VInt 7, VOther MockType 9]\<rparr>)"
    by simp
  with h1 h2 show ?thesis by blast
qed

text \<open>
  C2, as the claim states it, fails: a plain string where an \<^verbatim>\<open>int\<close> is expected makes
  the factory invalid at construction.
\<close>

theorem registration_check_counterexample:
  "NewType NewCounter [VString ''foo''] =
     Inr (InvalidType (Errorf ''input argument %d is of type %s but needs to be a %s''
            [Num 1, KindOp KString, KindOp KInt]))"
  by (simp add: NewCounter_def MockType_def NewType_def newTypeFromFactoryFunction_def
      buildFactoryCallArguments_def expectedArgumentType_TFunc newInvalidType_def ValueKind_def)

text \<open>
  C1, amended. A variadic constructor with \<open>F\<close> fixed parameters has \<open>F + 1\<close> inputs, and
  \<^verbatim>\<open>NewType\<close> asks for at least \<open>F + 1\<close> raw arguments: with \<open>k \<le> F\<close> arguments the factory is
  invalid with the error on the number of arguments; with any \<open>k > F\<close> arguments, none of
  them a plain string at a parameter of another kind, the factory is valid.
\<close>

theorem variadic_argument_count:
  assumes "TypeOf f = Some (TFunc fixed (Some elem) [out])"
    and "Kind out = KPtr \<or> Kind out = KInterface"
  shows "(length ps \<le> length fixed \<longrightarrow>
            NewType f ps =
              Inr (InvalidType (Errorf ''invalid number of input parameters for variadic function: got %d but expected at least %d''
                     [Num (int (length ps)), Num (int (length fixed) + 1)]))) \<and>
         (length fixed < length ps \<and>
          (\<forall>j<length ps. \<not> stringOfOtherKind (TFunc fixed (Some elem) [out]) j (ps ! j)) \<longrightarrow>
            NewType f ps =
              Inr (FuncType \<lparr>factory = f, factoryType = TFunc fixed (Some elem) [out],
                     factoryArguments = ps\<rparr>))"
proof (intro conjI impI)
  let ?t = "TFunc fixed (Some elem) [out]"
  have nt: "NewType f ps = newTypeFromFactoryFunction f ?t ps"
    using assms(1) by (simp add: NewType_def)
  {
    assume "length ps \<le> length fixed"
    with assms(2) show "NewType f ps =
              Inr (InvalidType (Errorf ''invalid number of input parameters for variadic function: got %d but expected at least %d''
                     [Num (int (length ps)), Num (int (length fixed) + 1)]))"
      unfolding nt by (auto simp: newTypeFromFactoryFunction_def newInvalidType_def)
  next
    assume a: "length fixed < length ps \<and>
          (\<forall>j<length ps. \<not> stringOfOtherKind ?t j (ps ! j))"
    then have cnt: "countAccepted ?t (length ps)" by simp
    from a have no: "\<forall>j<length ps. \<not> stringOfOtherKind ?t j (ps ! j)" by blast
    from newTypeFromFactoryFunction_accepts [OF assms(2) cnt no, of f]
    show "NewType f ps =
              Inr (FuncType \<lparr>factory = f, factoryType = ?t, factoryArguments = ps\<rparr>)"
      unfolding nt .
  }
qed

theorem variadic_argument_count_witness:
  "TypeOf NewVariadicMockType =
     Some (TFunc [TNamed PBool ''bool'', TNamed PString ''string'']
             (Some (TNamed PString ''string'')) [MockType]) \<and>
   (Kind MockType = KPtr \<or> Kind MockType = KInterface) \<and>
   NewType NewVariadicMockType [VBool True] =
     Inr (InvalidType (Errorf ''invalid number of input parameters for variadic function: got %d but expected at least %d''
            [Num 1, Num 3])) \<and>
   NewType NewVariadicMockType [VBool True, VString ''foo'', VString ''a'', VString ''b''] =
     Inr (FuncType \<lparr>factory = NewVariadicMockType,
            factoryType = TFunc [TNamed PBool ''bool'', TNamed PString ''string'']
                            (Some (TNamed PString ''string'')) [MockType],
            factoryArguments = [VBool True, VString ''foo'', VString ''a'', VString ''b'']\<rparr>)"
proof -
  have h1: "TypeOf NewVariadicMockType =
     Some (TFunc [TNamed PBool ''bool'', TNamed PString ''string'']
             (Some (TNamed PString ''string'')) [MockType])"
    by (simp add: NewVariadicMockType_def)
  have h2: "Kind MockType = KPtr \<or> Kind MockType = KInterface"
    by (simp add: MockType_def)
  have no: "\<forall>j<length [VBool True, VString ''foo'', VString ''a'', VString ''b''].
      \<not> stringOfOtherKind (TFunc [TNamed PBool ''bool'', TNamed PString ''string'']
                            (Some (TNamed PString ''string'')) [MockType]) j
        ([VBool True, VString ''foo'', VString ''a'', VString ''b''] ! j)"
    by (auto simp: less_Suc_eq expectedArgumentType_TFunc)
  from variadic_argument_count [OF h1 h2, of "[VBool True]"]
  have a: "NewType NewVariadicMockType [VBool True] =
     Inr (InvalidType (Errorf ''invalid number of input parameters for variadic function: got %d but expected at least %d''
            [Num 1, Num 3]))"
    by simp
  from variadic_argument_count [OF h1 h2,
      of "[VBool True, VString ''foo'', VString ''a'', VString ''b'']"] no
  have b: "NewType NewVariadicMockType [VBool True, VString ''foo'', VString ''a'', VString ''b''] =
     Inr (FuncType \<lparr>factory = NewVariadicMockType,
            factoryType = TFunc [TNamed PBool ''bool'', TNamed PString ''string'']
                            (Some (TNamed PString ''string'')) [MockType],
            factoryArguments = [VBool True, VString ''foo'', VString ''a'', VString ''b'']\<rparr>)"
    by simp
  from h1 h2 a b show ?thesis by blast
qed

text \<open>
  C1, as the claim states it, fails: with two fixed parameters, two raw arguments are
  rejected; and three raw arguments are rejected when the first is a plain string where a
  \<^verbatim>\<open>bool\<close> is expected.
\<close>

theorem variadic_argument_count_counterexample:
  "TypeOf NewVariadicMockType =
     Some (TFunc [TNamed PBool ''bool'', TNamed PString ''string'']
             (Some (TNamed PString ''string'')) [MockType]) \<and>
   length [TNamed PBool ''bool'', TNamed PString ''string''] \<le> length [VBool True, VString ''foo''] \<and>
   NewType NewVariadicMockType [VBool True, VString ''foo''] =
     Inr (InvalidType (Errorf ''invalid number of input parameters for variadic function: got %d but expected at least %d''
            [Num 2, Num 3])) \<and>
   NewType NewVariadicMockType [VString ''yes'', VString ''foo'', VString ''a''] =
     Inr (InvalidType (Errorf ''input argument %d is of type %s but needs to be a %s''
            [Num 1, KindOp KString, KindOp KBool]))"
  by (simp add: NewVariadicMockType_def MockType_def NewType_def newTypeFromFactoryFunction_def
      newInvalidType_def buildFactoryCallArguments_def expectedArgumentType_TFunc ValueKind_def)

lemma NewType_valid_shape:
  assumes "NewType f ps = Inr (FuncType t)"
  shows "\<exists>fixed va out. TypeOf f = Some (TFunc fixed va [out]) \<and>
           t = \<lparr>factory = f, factoryType = TFunc fixed va [out], factoryArguments = ps\<rparr> \<and>
           (Kind out = KPtr \<or> Kind out = KInterface) \<and>
           (if va = None then length ps = length fixed else length fixed + 1 \<le> length ps)"
proof -
  from assms obtain ft where ft: "TypeOf f = Some ft"
    by (cases "TypeOf f") (auto simp: NewType_def)
  let ?bad = "Kind ft \<noteq> KFunc \<or> NumOut ft \<noteq> 1 \<or>
            (\<exists>out. Out ft 0 = Some out \<and> Kind out \<noteq> KInterface \<and> Kind out \<noteq> KPtr) \<or>
            (IsVariadic ft \<and> length ps < NumIn ft) \<or>
            (\<not> IsVariadic ft \<and> NumIn ft \<noteq> length ps) \<or>
            (\<exists>j<length ps. stringOfOtherKind ft j (ps ! j))"
  have good: "\<not> ?bad"
  proof
    assume ?bad
    with NewType_cases [OF ft, of ps] assms show False by auto
  qed
  with NewType_cases [OF ft, of ps] assms
  have t: "t = \<lparr>factory = f, factoryType = ft, factoryArguments = ps\<rparr>" by simp
  from good obtain fixed va outs where shape: "ft = TFunc fixed va outs"
    using Kind_KFunc by blast
  from good shape obtain out where outs: "outs = [out]"
    by (cases outs) (auto simp: Suc_length_conv)
  from good shape outs have "Kind out = KPtr \<or> Kind out = KInterface"
    by auto
  moreover from good shape outs
  have "if va = None then length ps = length fixed else length fixed + 1 \<le> length ps"
    by (cases va) auto
  ultimately show ?thesis using ft t shape outs by blast
qed

section \<open>Generation of the arguments\<close>

lemma In_fixed: "i < length fixed \<Longrightarrow> In (TFunc fixed va outs) i = Some (fixed ! i)"
  by (cases va) (simp_all add: In_def nth_append)

lemma In_variadic: "In (TFunc fixed (Some e) outs) (length fixed) = Some (TSlice e)"
  by (simp add: In_def)

lemma resolveFixed_ok:
  assumes "length vs = length as"
    and "\<forall>j<length as. \<exists>ty. In (factoryType t) (i + j) = Some ty \<and>
           Resolve r (as ! j) ty = Inr (vs ! j)"
  shows "resolveFixed rt r t i as = Inr vs"
  using assms
proof (induction as arbitrary: i vs)
  case Nil
  then show ?case by simp
next
  case (Cons a as)
  from Cons.prems(1) obtain v vs' where vs: "vs = v # vs'" "length vs' = length as"
    by (cases vs) auto
  from Cons.prems(2) have "\<exists>ty. In (factoryType t) (i + 0) = Some ty \<and>
      Resolve r ((a # as) ! 0) ty = Inr (vs ! 0)" by blast
  then obtain ty where ty: "In (factoryType t) i = Some ty" "Resolve r a ty = Inr v"
    using vs(1) by auto
  have "\<forall>j<length as. \<exists>ty. In (factoryType t) (Suc i + j) = Some ty \<and>
      Resolve r (as ! j) ty = Inr (vs' ! j)"
  proof (intro allI impI)
    fix j assume "j < length as"
    then have "Suc j < length (a # as)" by simp
    with Cons.prems(2) have "\<exists>ty. In (factoryType t) (i + Suc j) = Some ty \<and>
      Resolve r ((a # as) ! Suc j) ty = Inr (vs ! Suc j)" by blast
    with vs(1) show "\<exists>ty. In (factoryType t) (Suc i + j) = Some ty \<and>
      Resolve r (as ! j) ty = Inr (vs' ! j)" by simp
  qed
  from Cons.IH [OF vs(2) this] have "resolveFixed rt r t (Suc i) as = Inr vs'" .
  with ty vs(1) show ?case by simp
qed

lemma resolveFixed_reference_error:
  assumes "m < length as"
    and "\<forall>j<m. \<exists>ty v. In (factoryType t) (i + j) = Some ty \<and> Resolve r (as ! j) ty = Inr v"
    and "In (factoryType t) (i + m) = Some ty"
    and "Resolve r (as ! m) ty = Inl (TypeReferenceError typeID inst)"
  shows "resolveFixed rt r t i as = Inl (invalidReferencedTypeErr rt t typeID inst (i + m))"
  using assms
proof (induction as arbitrary: i m)
  case Nil
  then show ?case by simp
next
  case (Cons a as)
  show ?case
  proof (cases m)
    case 0
    with Cons.prems(3,4) show ?thesis by simp
  next
    case (Suc k)
    from Cons.prems(2) Suc have "\<exists>ty v. In (factoryType t) (i + 0) = Some ty \<and>
        Resolve r ((a # as) ! 0) ty = Inr v" by blast
    then obtain ty0 v0 where h0: "In (factoryType t) i = Some ty0" "Resolve r a ty0 = Inr v0"
      by auto
    have 1: "k < length as" using Cons.prems(1) Suc by simp
    have 2: "\<forall>j<k. \<exists>ty v. In (factoryType t) (Suc i + j) = Some ty \<and>
        Resolve r (as ! j) ty = Inr v"
    proof (intro allI impI)
      fix j assume "j < k"
      then have "Suc j < m" using Suc by simp
      with Cons.prems(2) have "\<exists>ty v. In (factoryType t) (i + Suc j) = Some ty \<and>
        Resolve r ((a # as) ! Suc j) ty = Inr v" by blast
      then show "\<exists>ty v. In (factoryType t) (Suc i + j) = Some ty \<and>
        Resolve r (as ! j) ty = Inr v" by simp
    qed
    have 3: "In (factoryType t) (Suc i + k) = Some ty" using Cons.prems(3) Suc by simp
    have 4: "Resolve r (as ! k) ty = Inl (TypeReferenceError typeID inst)"
      using Cons.prems(4) Suc by simp
    from Cons.IH [OF 1 2 3 4] h0 Suc show ?thesis by simp
  qed
qed

lemma resolveTail_ok:
  assumes "length ws = length as"
    and "i + length as \<le> length slice"
    and "\<forall>j<length as. Resolve r (as ! j) elemT = Inr (ws ! j) \<and>
           (\<exists>ty. TypeOf (ws ! j) = Some ty \<and> AssignableTo rt ty elemT)"
  shows "resolveTail rt r t elemT i slice as =
           Inr (take i slice @ ws @ drop (i + length as) slice)"
  using assms
proof (induction as arbitrary: i slice ws)
  case Nil
  then show ?case by simp
next
  case (Cons a as)
  from Cons.prems(1) obtain w ws' where ws: "ws = w # ws'" "length ws' = length as"
    by (cases ws) auto
  from Cons.prems(3) have "Resolve r ((a # as) ! 0) elemT = Inr (ws ! 0) \<and>
           (\<exists>ty. TypeOf (ws ! 0) = Some ty \<and> AssignableTo rt ty elemT)" by blast
  with ws(1) obtain ty where h0: "Resolve r a elemT = Inr w" "TypeOf w = Some ty"
    "AssignableTo rt ty elemT" by auto
  from Cons.prems(2) have i: "i < length slice" by simp
  with h0 have set: "SetIndex rt elemT slice i w = Inr (slice[i := w])"
    by (simp add: SetIndex_def)
  have 2: "Suc i + length as \<le> length (slice[i := w])" using Cons.prems(2) by simp
  have 3: "\<forall>j<length as. Resolve r (as ! j) elemT = Inr (ws' ! j) \<and>
           (\<exists>ty. TypeOf (ws' ! j) = Some ty \<and> AssignableTo rt ty elemT)"
  proof (intro allI impI)
    fix j assume "j < length as"
    then have "Suc j < length (a # as)" by simp
    with Cons.prems(3) have "Resolve r ((a # as) ! Suc j) elemT = Inr (ws ! Suc j) \<and>
           (\<exists>ty. TypeOf (ws ! Suc j) = Some ty \<and> AssignableTo rt ty elemT)" by blast
    with ws(1) show "Resolve r (as ! j) elemT = Inr (ws' ! j) \<and>
           (\<exists>ty. TypeOf (ws' ! j) = Some ty \<and> AssignableTo rt ty elemT)" by simp
  qed
  from Cons.IH [OF ws(2) 2 3]
  have "resolveTail rt r t elemT (Suc i) (slice[i := w]) as =
          Inr (take (Suc i) (slice[i := w]) @ ws' @ drop (Suc i + length as) (slice[i := w]))" .
  moreover have "take (Suc i) (slice[i := w]) = take i slice @ [w]"
    using i by (simp add: take_Suc_conv_app_nth)
  moreover have "drop (Suc i + length as) (slice[i := w]) = drop (i + length (a # as)) slice"
    by simp
  ultimately show ?case using h0(1) set ws(1) by simp
qed

lemma generateVariadic_ok:
  assumes "factoryType t = TFunc fixed (Some elem) outs"
    and "length fixed \<le> length (factoryArguments t)"
    and "length vs = length fixed"
    and "\<forall>i<length fixed. Resolve r (factoryArguments t ! i) (fixed ! i) = Inr (vs ! i)"
    and "length ws = length (factoryArguments t) - length fixed"
    and "\<forall>j<length ws. Resolve r (factoryArguments t ! (length fixed + j)) elem = Inr (ws ! j) \<and>
           (\<exists>ty. TypeOf (ws ! j) = Some ty \<and> AssignableTo rt ty elem)"
  shows "generateVariadicFactoryArguments rt r t = Inr (vs @ [VSlice elem ws])"
proof -
  let ?as = "factoryArguments t"
  let ?F = "length fixed"
  have n: "NumIn (factoryType t) = ?F + 1" using assms(1) by simp
  have fx: "resolveFixed rt r t 0 (take ?F ?as) = Inr vs"
  proof (rule resolveFixed_ok)
    show "length vs = length (take ?F ?as)" using assms(2,3) by simp
    show "\<forall>j<length (take ?F ?as). \<exists>ty. In (factoryType t) (0 + j) = Some ty \<and>
           Resolve r (take ?F ?as ! j) ty = Inr (vs ! j)"
      using assms(1,2,4) by (simp add: In_fixed)
  qed
  have tl: "resolveTail rt r t elem 0 (replicate (length ?as - ?F) (Zero elem)) (drop ?F ?as) =
              Inr (take 0 (replicate (length ?as - ?F) (Zero elem)) @ ws @
                   drop (0 + length (drop ?F ?as)) (replicate (length ?as - ?F) (Zero elem)))"
  proof (rule resolveTail_ok)
    show "length ws = length (drop ?F ?as)" using assms(5) by simp
    show "0 + length (drop ?F ?as) \<le> length (replicate (length ?as - ?F) (Zero elem))" by simp
    show "\<forall>j<length (drop ?F ?as). Resolve r (drop ?F ?as ! j) elem = Inr (ws ! j) \<and>
           (\<exists>ty. TypeOf (ws ! j) = Some ty \<and> AssignableTo rt ty elem)"
      using assms(2,5,6) by simp
  qed
  then have tl': "resolveTail rt r t elem 0 (replicate (length ?as - ?F) (Zero elem)) (drop ?F ?as) =
              Inr ws" by simp
  show ?thesis
    unfolding generateVariadicFactoryArguments_def Let_def n using fx tl' assms(1,2)
    by (simp add: In_variadic)
qed

lemma Generate_FuncType_args:
  assumes "generateFactoryArguments rt r t = Inr args"
  shows "Generate rt r (FuncType t) =
           (case Invoke rt (factory t) args of
              Inl e \<Rightarrow> Inl e
            | Inr [] \<Rightarrow> Inl (Panic ''no return parameter found. this should never ever happen'')
            | Inr (result # others) \<Rightarrow> Inr result)"
  using assms by (simp add: typeFactory_Generate_def)

lemma Generate_FuncType_error:
  assumes "generateFactoryArguments rt r t = Inl e"
  shows "Generate rt r (FuncType t) = Inl e"
  using assms by (simp add: typeFactory_Generate_def)

text \<open>
  C4. For a valid variadic factory with \<open>F\<close> fixed parameters and \<open>k\<close> raw arguments, all of
  which resolve (the first \<open>F\<close> against the types of their positions, to \<open>vs\<close>; the others
  against the element type of the variadic parameter, to values \<open>ws\<close> assignable to it):
  the arguments generated are \<open>vs\<close>, each at its position, followed by exactly one sequence
  that holds \<open>ws\<close> in the order of the raw arguments, and \<^verbatim>\<open>Generate\<close> invokes the constructor
  with these and returns its first result.
\<close>

theorem variadic_tail_packed_in_order:
  assumes "NewType f ps = Inr (FuncType t)"
    and "factoryType t = TFunc fixed (Some elem) outs"
    and "length vs = length fixed"
    and "\<forall>i<length fixed. Resolve r (ps ! i) (fixed ! i) = Inr (vs ! i)"
    and "length ws = length ps - length fixed"
    and "\<forall>j<length ws. Resolve r (ps ! (length fixed + j)) elem = Inr (ws ! j) \<and>
           (\<exists>ty. TypeOf (ws ! j) = Some ty \<and> AssignableTo rt ty elem)"
  shows "generateFactoryArguments rt r t = Inr (vs @ [VSlice elem ws]) \<and>
         Generate rt r (FuncType t) =
           (case Invoke rt f (vs @ [VSlice elem ws]) of
              Inl e \<Rightarrow> Inl e
            | Inr [] \<Rightarrow> Inl (Panic ''no return parameter found. this should never ever happen'')
            | Inr (result # others) \<Rightarrow> Inr result)"
proof -
  from NewType_valid_shape [OF assms(1)] obtain fixed' va out where
    sh: "t = \<lparr>factory = f, factoryType = TFunc fixed' va [out], factoryArguments = ps\<rparr>"
        "if va = None then length ps = length fixed' else length fixed' + 1 \<le> length ps"
    by blast
  from sh(1) assms(2) have eq: "fixed' = fixed" "va = Some elem" by simp_all
  from sh(1) have fa: "factoryArguments t = ps" "factory t = f" by simp_all
  from sh(2) eq have len: "length fixed \<le> length (factoryArguments t)" using fa by simp
  have "generateVariadicFactoryArguments rt r t = Inr (vs @ [VSlice elem ws])"
    using assms(2) len assms(3) assms(4-6) [folded fa(1)] by (rule generateVariadic_ok)
  then have g: "generateFactoryArguments rt r t = Inr (vs @ [VSlice elem ws])"
    using assms(2) by (simp add: generateFactoryArguments_def)
  from g Generate_FuncType_args [OF g] fa(2) show ?thesis by simp
qed


lemma plain_strings [simp]:
  "\<not> IsTypeReference ''foo''" "\<not> IsTypeReference ''a''" "\<not> IsTypeReference ''b''"
  "IsTypeReference ''@missing''" "IsParameterOrTypeReference ''@missing''"
  by (simp_all add: IsParameterOrTypeReference_def IsParameter_def IsTypeReference_def)

theorem variadic_tail_packed_in_order_witness:
  "NewType NewVariadicMockType [VBool True, VString ''foo'', VString ''a'', VString ''b''] =
     Inr (FuncType \<lparr>factory = NewVariadicMockType,
            factoryType = TFunc [TNamed PBool ''bool'', TNamed PString ''string'']
                            (Some (TNamed PString ''string'')) [MockType],
            factoryArguments = [VBool True, VString ''foo'', VString ''a'', VString ''b'']\<rparr>) \<and>
   generateFactoryArguments testRuntime testResolver
     \<lparr>factory = NewVariadicMockType,
      factoryType = TFunc [TNamed PBool ''bool'', TNamed PString ''string'']
                      (Some (TNamed PString ''string'')) [MockType],
      factoryArguments = [VBool True, VString ''foo'', VString ''a'', VString ''b'']\<rparr> =
     Inr [VBool True, VString ''foo'',
          VSlice (TNamed PString ''string'') [VString ''a'', VString ''b'']] \<and>
   Generate testRuntime testResolver
     (FuncType \<lparr>factory = NewVariadicMockType,
        factoryType = TFunc [TNamed PBool ''bool'', TNamed PString ''string'']
                        (Some (TNamed PString ''string'')) [MockType],
        factoryArguments = [VBool True, VString ''foo'', VString ''a'', VString ''b'']\<rparr>) =
     Inr (VObject MockType
            [(''Arguments'', VSlice (TInterface ''interface {}'')
                [VBool True, VString ''foo'',
                 VSlice (TNamed PString ''string'') [VString ''a'', VString ''b'']])])"
proof -
  let ?ps = "[VBool True, VString ''foo'', VString ''a'', VString ''b'']"
  let ?fixed = "[TNamed PBool ''bool'', TNamed PString ''string'']"
  let ?t = "\<lparr>factory = NewVariadicMockType,
            factoryType = TFunc ?fixed (Some (TNamed PString ''string'')) [MockType],
            factoryArguments = ?ps\<rparr>"
  let ?vs = "[VBool True, VString ''foo'']"
  let ?ws = "[VString ''a'', VString ''b'']"
  have h1: "NewType NewVariadicMockType ?ps = Inr (FuncType ?t)"
    by (simp add: NewVariadicMockType_def MockType_def NewType_def newTypeFromFactoryFunction_def
        buildFactoryCallArguments_def expectedArgumentType_TFunc ValueKind_def)
  have h2: "factoryType ?t = TFunc ?fixed (Some (TNamed PString ''string'')) [MockType]" by simp
  have h3: "length ?vs = length ?fixed" by simp
  have h4: "\<forall>i<length ?fixed. Resolve testResolver (?ps ! i) (?fixed ! i) = Inr (?vs ! i)"
    by (simp add: testResolver_def nth_Cons' less_Suc_eq)
  have h5: "length ?ws = length ?ps - length ?fixed" by simp
  have h6: "\<forall>j<length ?ws.
      Resolve testResolver (?ps ! (length ?fixed + j)) (TNamed PString ''string'') = Inr (?ws ! j) \<and>
      (\<exists>ty. TypeOf (?ws ! j) = Some ty \<and> AssignableTo testRuntime ty (TNamed PString ''string''))"
    by (simp add: testResolver_def testRuntime_def nth_Cons' less_Suc_eq)
  have inv: "Invoke testRuntime NewVariadicMockType
               [VBool True, VString ''foo'', VSlice (TNamed PString ''string'') ?ws] =
             Inr [VObject MockType
                    [(''Arguments'', VSlice (TInterface ''interface {}'')
                        [VBool True, VString ''foo'', VSlice (TNamed PString ''string'') ?ws])]]"
    by (simp add: testRuntime_def NewVariadicMockType_def)
  from variadic_tail_packed_in_order [OF h1 h2 h3 h4 h5 h6] h1
  show ?thesis by (simp add: inv)
qed

section \<open>Errors of generation\<close>

text \<open>
  C8, amended. When the raw argument at a fixed parameter position \<open>m\<close> (counted from zero)
  of a valid function factory resolves to a type-reference failure, the arguments before it
  resolving, \<^verbatim>\<open>Generate\<close> returns the error whose operands are the referenced id, the instance
  obtained, the position \<open>m + 1\<close>, the last path element of the constructor's name and the
  constructor's signature. The id of the producing factory is no operand: the factory does
  not hold it.
\<close>

theorem reference_error_names_position:
  assumes "NewType f ps = Inr (FuncType t)"
    and "factoryType t = TFunc fixed va outs"
    and "m < length fixed"
    and "\<forall>j<m. \<exists>v. Resolve r (ps ! j) (fixed ! j) = Inr v"
    and "Resolve r (ps ! m) (fixed ! m) = Inl (TypeReferenceError typeID inst)"
  shows \<open>Generate rt r (FuncType t) =
           Inl (Errorf ''the referenced type "@%s" (type %T) can not be passed as argument %d to the function signature %s(%s)''
                  [Str typeID, Inst inst, Num (int m + 1),
                   Str (last (Split (FuncName rt f) CHR ''/'')),
                   Str (Join (map TypeString (inputs (factoryType t))) '', '')])\<close>
proof -
  from NewType_valid_shape [OF assms(1)] obtain fixed' va' out where
    sh: "t = \<lparr>factory = f, factoryType = TFunc fixed' va' [out], factoryArguments = ps\<rparr>"
        "if va' = None then length ps = length fixed' else length fixed' + 1 \<le> length ps"
    by blast
  from sh(1) assms(2) have eq: "fixed' = fixed" "va' = va" by simp_all
  from sh(1) have fa: "factoryArguments t = ps" "factory t = f" by simp_all
  from sh(2) eq have len: "length fixed \<le> length ps" by (cases va) auto
  let ?as = "take (length fixed) ps"
  have 1: "m < length ?as" using assms(3) len by simp
  have 2: "\<forall>j<m. \<exists>ty v. In (factoryType t) (0 + j) = Some ty \<and> Resolve r (?as ! j) ty = Inr v"
    using assms(2,3,4) by (simp add: In_fixed)
  have 3: "In (factoryType t) (0 + m) = Some (fixed ! m)"
    using assms(2,3) by (simp add: In_fixed)
  have 4: "Resolve r (?as ! m) (fixed ! m) = Inl (TypeReferenceError typeID inst)"
    using assms(3,5) by simp
  have rf: "resolveFixed rt r t 0 ?as = Inl (invalidReferencedTypeErr rt t typeID inst (0 + m))"
    using 1 2 3 4 by (rule resolveFixed_reference_error)
  have "generateFactoryArguments rt r t = Inl (invalidReferencedTypeErr rt t typeID inst m)"
  proof (cases va)
    case None
    with sh(2) eq have "?as = ps" by simp
    with rf None assms(2) fa show ?thesis by (simp add: generateFactoryArguments_def)
  next
    case (Some e)
    with rf assms(2) fa len show ?thesis
      by (simp add: generateFactoryArguments_def generateVariadicFactoryArguments_def)
  qed
  from Generate_FuncType_error [OF this] fa(2) show ?thesis
    by (simp add: invalidReferencedTypeErr_def)
qed


lemma testRuntime_names:
  "last (Split (FuncName testRuntime NewMockType) CHR ''/'') = ''tests.NewMockType''"
  "last (Split (FuncName testRuntime NewVariadicMockType) CHR ''/'') = ''tests.NewVariadicMockType''"
  by (simp_all add: testRuntime_def NewMockType_def NewVariadicMockType_def)

theorem reference_error_names_position_witness:
  \<open>NewType NewMockType [VString ''foo'', VString ''@missing''] =
     Inr (FuncType \<lparr>factory = NewMockType,
            factoryType = TFunc [TNamed PString ''string'', TNamed PBool ''bool''] None [MockType],
            factoryArguments = [VString ''foo'', VString ''@missing'']\<rparr>) \<and>
   Resolve testResolver (VString ''foo'') (TNamed PString ''string'') = Inr (VString ''foo'') \<and>
   Resolve testResolver (VString ''@missing'') (TNamed PBool ''bool'') =
     Inl (TypeReferenceError ''missing'' VNil) \<and>
   Generate testRuntime testResolver
     (FuncType \<lparr>factory = NewMockType,
        factoryType = TFunc [TNamed PString ''string'', TNamed PBool ''bool''] None [MockType],
        factoryArguments = [VString ''foo'', VString ''@missing'']\<rparr>) =
     Inl (Errorf ''the referenced type "@%s" (type %T) can not be passed as argument %d to the function signature %s(%s)''
            [Str ''missing'', Inst VNil, Num 2, Str ''tests.NewMockType'', Str ''string, bool''])\<close>
proof -
  let ?ps = "[VString ''foo'', VString ''@missing'']"
  let ?fixed = "[TNamed PString ''string'', TNamed PBool ''bool'']"
  let ?t = "\<lparr>factory = NewMockType, factoryType = TFunc ?fixed None [MockType],
            factoryArguments = ?ps\<rparr>"
  have h1: "NewType NewMockType ?ps = Inr (FuncType ?t)"
    by (simp add: NewMockType_def MockType_def NewType_def newTypeFromFactoryFunction_def
        buildFactoryCallArguments_def expectedArgumentType_TFunc ValueKind_def)
  have h2: "factoryType ?t = TFunc ?fixed None [MockType]" by simp
  have h3: "(1::nat) < length ?fixed" by simp
  have r0: "Resolve testResolver (VString ''foo'') (TNamed PString ''string'') = Inr (VString ''foo'')"
    by (simp add: testResolver_def)
  have h4: "\<forall>j<1. \<exists>v. Resolve testResolver (?ps ! j) (?fixed ! j) = Inr v"
    using r0 by simp
  have h5: "Resolve testResolver (?ps ! 1) (?fixed ! 1) = Inl (TypeReferenceError ''missing'' VNil)"
    by (simp add: testResolver_def)
  from reference_error_names_position [OF h1 h2 h3 h4 h5, of testRuntime] h1 r0 h5
  show ?thesis by (simp add: testRuntime_names)
qed

text \<open>
  C8, as the claim states it, fails. The factory below stands in a registry under the id
  \<^verbatim>\<open>producer\<close>; its third raw argument is the reference that fails. The error has the
  referenced id, the instance, a position, the constructor's name and its signature as
  operands: the id \<^verbatim>\<open>producer\<close> is not among them, and the position is 1, the index of the
  argument within the variadic tail, not 3.
\<close>

theorem reference_error_counterexample:
  \<open>map_of [(''producer'',
       FuncType \<lparr>factory = NewVariadicMockType,
         factoryType = TFunc [TNamed PBool ''bool'', TNamed PString ''string'']
                         (Some (TNamed PString ''string'')) [MockType],
         factoryArguments = [VBool True, VString ''foo'', VString ''@missing'']\<rparr>)] ''producer'' =
     Some (FuncType \<lparr>factory = NewVariadicMockType,
         factoryType = TFunc [TNamed PBool ''bool'', TNamed PString ''string'']
                         (Some (TNamed PString ''string'')) [MockType],
         factoryArguments = [VBool True, VString ''foo'', VString ''@missing'']\<rparr>) \<and>
   NewType NewVariadicMockType [VBool True, VString ''foo'', VString ''@missing''] =
     Inr (FuncType \<lparr>factory = NewVariadicMockType,
            factoryType = TFunc [TNamed PBool ''bool'', TNamed PString ''string'']
                            (Some (TNamed PString ''string'')) [MockType],
            factoryArguments = [VBool True, VString ''foo'', VString ''@missing'']\<rparr>) \<and>
   Resolve testResolver (VBool True) (TNamed PBool ''bool'') = Inr (VBool True) \<and>
   Resolve testResolver (VString ''foo'') (TNamed PString ''string'') = Inr (VString ''foo'') \<and>
   Resolve testResolver (VString ''@missing'') (TNamed PString ''string'') =
     Inl (TypeReferenceError ''missing'' VNil) \<and>
   Generate testRuntime testResolver
     (FuncType \<lparr>factory = NewVariadicMockType,
        factoryType = TFunc [TNamed PBool ''bool'', TNamed PString ''string'']
                        (Some (TNamed PString ''string'')) [MockType],
        factoryArguments = [VBool True, VString ''foo'', VString ''@missing'']\<rparr>) =
     Inl (Errorf ''the referenced type "@%s" (type %T) can not be passed as argument %d to the function signature %s(%s)''
            [Str ''missing'', Inst VNil, Num 1, Str ''tests.NewVariadicMockType'',
             Str ''bool, string, []string'']) \<and>
   Str ''producer'' \<notin>
     set [Str ''missing'', Inst VNil, Num 1, Str ''tests.NewVariadicMockType'',
          Str ''bool, string, []string'']\<close>
proof -
  have h1: "NewType NewVariadicMockType [VBool True, VString ''foo'', VString ''@missing''] =
     Inr (FuncType \<lparr>factory = NewVariadicMockType,
            factoryType = TFunc [TNamed PBool ''bool'', TNamed PString ''string'']
                            (Some (TNamed PString ''string'')) [MockType],
            factoryArguments = [VBool True, VString ''foo'', VString ''@missing'']\<rparr>)"
    by (simp add: NewVariadicMockType_def MockType_def NewType_def newTypeFromFactoryFunction_def
        buildFactoryCallArguments_def expectedArgumentType_TFunc ValueKind_def)
  have r: "Resolve testResolver (VBool True) (TNamed PBool ''bool'') = Inr (VBool True)"
    "Resolve testResolver (VString ''foo'') (TNamed PString ''string'') = Inr (VString ''foo'')"
    "Resolve testResolver (VString ''@missing'') (TNamed PString ''string'') =
       Inl (TypeReferenceError ''missing'' VNil)"
    by (simp_all add: testResolver_def)
  have g: \<open>Generate testRuntime testResolver
     (FuncType \<lparr>factory = NewVariadicMockType,
        factoryType = TFunc [TNamed PBool ''bool'', TNamed PString ''string'']
                        (Some (TNamed PString ''string'')) [MockType],
        factoryArguments = [VBool True, VString ''foo'', VString ''@missing'']\<rparr>) =
     Inl (Errorf ''the referenced type "@%s" (type %T) can not be passed as argument %d to the function signature %s(%s)''
            [Str ''missing'', Inst VNil, Num 1, Str ''tests.NewVariadicMockType'',
             Str ''bool, string, []string''])\<close>
    by (simp add: typeFactory_Generate_def generateFactoryArguments_def
        generateVariadicFactoryArguments_def In_def NumIn_def r invalidReferencedTypeErr_def
        testRuntime_names)
  from h1 r g show ?thesis by simp
qed

section \<open>Arguments of a factory\<close>

text \<open>
  A valid function factory none of whose raw arguments is nil returns its raw arguments as
  they were given, and the alias factory for \<^verbatim>\<open>foo\<close> returns the one argument \<^verbatim>\<open>@foo\<close>.
\<close>

lemma typeFactory_Arguments_loop_no_nil:
  "VNil \<notin> set args \<Longrightarrow> typeFactory_Arguments_loop args = Inr args"
proof (induction args)
  case Nil
  then show ?case by simp
next
  case (Cons a args)
  then have "a \<noteq> VNil" by auto
  then have "Interface a = Inr a" by (cases a) simp_all
  with Cons show ?case by simp
qed

lemma Arguments_no_nil:
  assumes "NewType f ps = Inr (FuncType t)" and "VNil \<notin> set ps"
  shows "Arguments (FuncType t) = Inr ps"
proof -
  from NewType_valid_shape [OF assms(1)] have "factoryArguments t = ps" by auto
  with assms(2) show ?thesis
    by (simp add: typeFactory_Arguments_def typeFactory_Arguments_loop_no_nil)
qed

lemma Arguments_alias: "Arguments (NewAliasType ''foo'') = Inr [VString ''@foo'']"
  by (simp add: NewAliasType_def aliasType_Arguments_def)

text \<open>
  C7 fails on the code where a raw argument is nil: \<^verbatim>\<open>NewType\<close> accepts it (the zero Value
  has kind \<^verbatim>\<open>Invalid\<close> and is no string), the factory is valid, and \<^verbatim>\<open>Arguments\<close> panics in
  \<^verbatim>\<open>Interface\<close> instead of returning the declared arguments.
\<close>

theorem Arguments_nil_argument_panics:
  "NewType NewPointerHolder [VNil] =
     Inr (FuncType \<lparr>factory = NewPointerHolder, factoryType = TFunc [MockType] None [MockType],
            factoryArguments = [VNil]\<rparr>) \<and>
   IsValid (FuncType \<lparr>factory = NewPointerHolder, factoryType = TFunc [MockType] None [MockType],
              factoryArguments = [VNil]\<rparr>) \<and>
   Arguments (FuncType \<lparr>factory = NewPointerHolder, factoryType = TFunc [MockType] None [MockType],
                factoryArguments = [VNil]\<rparr>) =
     Inl (Panic ''reflect: call of reflect.Value.Interface on zero Value'')"
  by (simp add: NewPointerHolder_def MockType_def NewType_def newTypeFromFactoryFunction_def
      buildFactoryCallArguments_def expectedArgumentType_TFunc ValueKind_def
      typeFactory_Arguments_def)

section \<open>The alias to a member\<close>

lemma splitMember_suffix:
  "CHR '':'' \<notin> set target \<Longrightarrow> splitMember (target @ ''::'' @ member) = (target, Some member)"
  by (induction target) auto

lemma splitMember_plain: "CHR '':'' \<notin> set target \<Longrightarrow> splitMember target = (target, None)"
  by (induction target) auto

lemma VBound_not_instance: "VBound ft x m \<noteq> x"
  by (induction x arbitrary: ft m) auto

text \<open>Without a member suffix the alias forwards to the retrieval of its target.\<close>

lemma alias_forwards:
  "CHR '':'' \<notin> set target \<Longrightarrow> Generate rt r (NewAliasType target) = Get r target"
  by (simp add: NewAliasType_def aliasType_Generate_def splitMember_plain)

text \<open>
  C6. For every target id (without a colon), every member name, every resolver and every
  run-time system: when the container yields an instance for the target and the instance
  has an exposed method of the member's name, the alias for \<^verbatim>\<open>target::Member\<close> generates the
  method value bound to that instance, which is not the instance, and the call of the
  generated value with any arguments is the call of the method on that instance with these
  arguments. When the retrieval of the target fails, the alias fails with the same error.
\<close>

theorem alias_member_is_bound_callable:
  assumes "CHR '':'' \<notin> set target"
  shows "(Get r target = Inr instance \<and> MethodByName rt instance member = Some (ft, body) \<longrightarrow>
            Generate rt r (NewAliasType (target @ ''::'' @ member)) =
              Inr (VBound ft instance member) \<and>
            Generate rt r (NewAliasType (target @ ''::'' @ member)) \<noteq> Inr instance \<and>
            (\<forall>args. callValue rt (VBound ft instance member) args = body args)) \<and>
         (Get r target = Inl e \<longrightarrow>
            Generate rt r (NewAliasType (target @ ''::'' @ member)) = Inl e)"
proof (intro conjI impI)
  have sp: "splitMember (target @ ''::'' @ member) = (target, Some member)"
    using assms by (rule splitMember_suffix)
  {
    assume h: "Get r target = Inr instance \<and> MethodByName rt instance member = Some (ft, body)"
    with sp show g: "Generate rt r (NewAliasType (target @ ''::'' @ member)) =
              Inr (VBound ft instance member)"
      by (simp add: NewAliasType_def aliasType_Generate_def)
    show "Generate rt r (NewAliasType (target @ ''::'' @ member)) \<noteq> Inr instance"
      unfolding g by (simp add: VBound_not_instance)
    from h show "\<forall>args. callValue rt (VBound ft instance member) args = body args"
      by (simp add: callValue_def)
  next
    assume "Get r target = Inl e"
    with sp show "Generate rt r (NewAliasType (target @ ''::'' @ member)) = Inl e"
      by (simp add: NewAliasType_def aliasType_Generate_def)
  }
qed

text \<open>
  The instance of the alias test: the instance under \<^verbatim>\<open>foo\<close> holds "I was created by @foo",
  and the callable generated for \<^verbatim>\<open>foo::ReturnString\<close>, called with "TEST", yields
  "I was created by @foo TEST".
\<close>

theorem alias_member_is_bound_callable_witness:
  "CHR '':'' \<notin> set ''foo'' \<and>
   Get testResolver ''foo'' = Inr (mockInstance ''I was created by @foo'') \<and>
   MethodByName testRuntime (mockInstance ''I was created by @foo'') ''ReturnString'' =
     Some (TFunc [TNamed PString ''string''] None [TNamed PString ''string''],
           ReturnString (mockInstance ''I was created by @foo'')) \<and>
   Generate testRuntime testResolver (NewAliasType ''foo::ReturnString'') =
     Inr (VBound (TFunc [TNamed PString ''string''] None [TNamed PString ''string''])
            (mockInstance ''I was created by @foo'') ''ReturnString'') \<and>
   callValue testRuntime
     (VBound (TFunc [TNamed PString ''string''] None [TNamed PString ''string''])
        (mockInstance ''I was created by @foo'') ''ReturnString'')
     [VString ''TEST''] =
     Inr [VString ''I was created by @foo TEST'']"
proof -
  let ?x = "mockInstance ''I was created by @foo''"
  let ?ft = "TFunc [TNamed PString ''string''] None [TNamed PString ''string'']"
  have h0: "CHR '':'' \<notin> set ''foo''" by simp
  have h1: "Get testResolver ''foo'' = Inr ?x"
    by (simp add: testResolver_def)
  have h2: "MethodByName testRuntime ?x ''ReturnString'' = Some (?ft, ReturnString ?x)"
    by (simp add: testRuntime_def mockInstance_def)
  have body: "ReturnString ?x [VString ''TEST''] = Inr [VString ''I was created by @foo TEST'']"
    by (simp add: mockInstance_def)
  from alias_member_is_bound_callable [OF h0, of testResolver ?x testRuntime "''ReturnString''"
      ?ft "ReturnString ?x"] h1 h2
  have "Generate testRuntime testResolver (NewAliasType (''foo'' @ ''::'' @ ''ReturnString'')) =
          Inr (VBound ?ft ?x ''ReturnString'') \<and>
        callValue testRuntime (VBound ?ft ?x ''ReturnString'') [VString ''TEST''] =
          ReturnString ?x [VString ''TEST'']"
    by blast
  with h0 h1 h2 body show ?thesis by simp
qed

section \<open>Validation: the constraint on invalid types\<close>

lemma Validate_None_iff:
  "Validate entries = None \<longleftrightarrow> (\<forall>typeID f. (typeID, f) \<in> set entries \<longrightarrow> IsValid f)"
  by (induction entries rule: Validate.induct) (auto split: TypeFactory.splits)

lemma Validate_Some:
  "Validate entries = Some e \<Longrightarrow>
     \<exists>typeID c. (typeID, InvalidType c) \<in> set entries \<and>
        e = Errorf ''type %q is invalid: %s'' [Str typeID, ErrOp c]"
  by (induction entries rule: Validate.induct) (auto split: TypeFactory.splits if_splits)

lemma iteration_entry:
  "iteration registry entries \<Longrightarrow> ((typeID, f) \<in> set entries) = (registry typeID = Some f)"
  by (auto simp: iteration_def)

lemma Validate_None_registry:
  assumes "iteration registry entries"
  shows "Validate entries = None \<longleftrightarrow> (\<forall>typeID f. registry typeID = Some f \<longrightarrow> IsValid f)"
  unfolding Validate_None_iff using iteration_entry [OF assms] by simp

text \<open>
  The error names the first invalid factory that the walk meets: the entries before it are
  valid, and what follows it is not looked at.
\<close>

lemma Validate_first_invalid:
  "\<forall>x\<in>set before. IsValid (snd x) \<Longrightarrow>
     Validate (before @ (typeID, InvalidType c) # after) =
       Some (Errorf ''type %q is invalid: %s'' [Str typeID, ErrOp c])"
  by (induction before rule: Validate.induct) auto

lemma Validate_Some_first:
  "Validate entries = Some e \<Longrightarrow>
     \<exists>before typeID c after. entries = before @ (typeID, InvalidType c) # after \<and>
        (\<forall>x\<in>set before. IsValid (snd x)) \<and>
        e = Errorf ''type %q is invalid: %s'' [Str typeID, ErrOp c]"
proof (induction entries rule: Validate.induct)
  case 1
  then show ?case by simp
next
  case (2 typeID typeFactory rest)
  show ?case
  proof (cases typeFactory)
    case (InvalidType c)
    with "2.prems" have "e = Errorf ''type %q is invalid: %s'' [Str typeID, ErrOp c]" by simp
    with InvalidType have "(typeID, typeFactory) # rest = [] @ (typeID, InvalidType c) # rest \<and>
        (\<forall>x\<in>set []. IsValid (snd x)) \<and>
        e = Errorf ''type %q is invalid: %s'' [Str typeID, ErrOp c]" by simp
    then show ?thesis by blast
  next
    case (FuncType t)
    with "2.prems" have "Validate rest = Some e" by simp
    with "2.IH" FuncType obtain before i c after where
      h: "rest = before @ (i, InvalidType c) # after" "\<forall>x\<in>set before. IsValid (snd x)"
         "e = Errorf ''type %q is invalid: %s'' [Str i, ErrOp c]"
      by auto
    from h FuncType have
      "(typeID, typeFactory) # rest = ((typeID, typeFactory) # before) @ (i, InvalidType c) # after \<and>
        (\<forall>x\<in>set ((typeID, typeFactory) # before). IsValid (snd x)) \<and>
        e = Errorf ''type %q is invalid: %s'' [Str i, ErrOp c]" by simp
    then show ?thesis by blast
  next
    case (AliasType a)
    with "2.prems" have "Validate rest = Some e" by simp
    with "2.IH" AliasType obtain before i c after where
      h: "rest = before @ (i, InvalidType c) # after" "\<forall>x\<in>set before. IsValid (snd x)"
         "e = Errorf ''type %q is invalid: %s'' [Str i, ErrOp c]"
      by auto
    from h AliasType have
      "(typeID, typeFactory) # rest = ((typeID, typeFactory) # before) @ (i, InvalidType c) # after \<and>
        (\<forall>x\<in>set ((typeID, typeFactory) # before). IsValid (snd x)) \<and>
        e = Errorf ''type %q is invalid: %s'' [Str i, ErrOp c]" by simp
    then show ?thesis by blast
  qed
qed

lemma Validate_Some_iff_first:
  "Validate entries = Some e \<longleftrightarrow>
     (\<exists>before typeID c after. entries = before @ (typeID, InvalidType c) # after \<and>
        (\<forall>x\<in>set before. IsValid (snd x)) \<and>
        e = Errorf ''type %q is invalid: %s'' [Str typeID, ErrOp c])"
  using Validate_Some_first [of entries e] Validate_first_invalid by blast

text \<open>
  C3. Whatever the order in which the registry is walked, \<^verbatim>\<open>Validate\<close> returns an error if
  and only if some registered factory is invalid, and the error it returns has as operands
  the id of an invalid registered factory and that factory's recorded construction error.
\<close>

theorem Validate_error_iff_invalid:
  assumes "iteration registry entries"
  shows "(Validate entries \<noteq> None \<longleftrightarrow> (\<exists>typeID f. registry typeID = Some f \<and> \<not> IsValid f)) \<and>
         (\<forall>e. Validate entries = Some e \<longrightarrow>
            (\<exists>typeID c. registry typeID = Some (InvalidType c) \<and>
               e = Errorf ''type %q is invalid: %s'' [Str typeID, ErrOp c]))"
proof (intro conjI allI impI)
  show "Validate entries \<noteq> None \<longleftrightarrow> (\<exists>typeID f. registry typeID = Some f \<and> \<not> IsValid f)"
    using Validate_None_registry [OF assms] by auto
next
  fix e assume "Validate entries = Some e"
  from Validate_Some [OF this] iteration_entry [OF assms]
  show "\<exists>typeID c. registry typeID = Some (InvalidType c) \<and>
               e = Errorf ''type %q is invalid: %s'' [Str typeID, ErrOp c]"
    by blast
qed

theorem Validate_error_iff_invalid_witness:
  "iteration (map_of [(''logger'', AliasType ''log''), (''broken'', InvalidType noReturnErr)])
     [(''logger'', AliasType ''log''), (''broken'', InvalidType noReturnErr)] \<and>
   Validate [(''logger'', AliasType ''log''), (''broken'', InvalidType noReturnErr)] =
     Some (Errorf ''type %q is invalid: %s'' [Str ''broken'', ErrOp noReturnErr]) \<and>
   (\<exists>typeID f. map_of [(''logger'', AliasType ''log''), (''broken'', InvalidType noReturnErr)] typeID
        = Some f \<and> \<not> IsValid f)"
proof -
  have h: "iteration (map_of [(''logger'', AliasType ''log''), (''broken'', InvalidType noReturnErr)])
     [(''logger'', AliasType ''log''), (''broken'', InvalidType noReturnErr)]"
    by (simp add: iteration_def)
  show ?thesis
    using h Validate_error_iff_invalid [OF h] by simp
qed

text \<open>
  C9, as the claim states it, fails: with two invalid factories in the registry, two walks
  of the same registry in different orders return errors that name different ids.
\<close>

theorem Validate_order_counterexample:
  "iteration (map_of [(''a'', InvalidType noReturnErr), (''b'', InvalidType noFunctionErr)])
     [(''a'', InvalidType noReturnErr), (''b'', InvalidType noFunctionErr)] \<and>
   iteration (map_of [(''a'', InvalidType noReturnErr), (''b'', InvalidType noFunctionErr)])
     [(''b'', InvalidType noFunctionErr), (''a'', InvalidType noReturnErr)] \<and>
   Validate [(''a'', InvalidType noReturnErr), (''b'', InvalidType noFunctionErr)] =
     Some (Errorf ''type %q is invalid: %s'' [Str ''a'', ErrOp noReturnErr]) \<and>
   Validate [(''b'', InvalidType noFunctionErr), (''a'', InvalidType noReturnErr)] =
     Some (Errorf ''type %q is invalid: %s'' [Str ''b'', ErrOp noFunctionErr])"
  by (auto simp: iteration_def)

text \<open>
  C9, amended. Two walks of the same registry agree on whether an error is returned; when
  the registry holds at most one invalid factory they return the same result. In each walk
  the error returned is that of the first invalid factory the walk meets: a walk returns the
  error \<open>e\<close> exactly when it splits into valid entries, an invalid entry whose id and recorded
  error are the operands of \<open>e\<close>, and the rest. So with several invalid factories the id
  named depends on the order of the walk.
\<close>

theorem Validate_two_runs:
  assumes "iteration registry run1" and "iteration registry run2"
  shows "(Validate run1 = None \<longleftrightarrow> Validate run2 = None) \<and>
         ((\<forall>i j f g. registry i = Some f \<and> registry j = Some g \<and> \<not> IsValid f \<and> \<not> IsValid g
              \<longrightarrow> i = j) \<longrightarrow> Validate run1 = Validate run2) \<and>
         (\<forall>e. Validate run1 = Some e \<longleftrightarrow>
            (\<exists>before typeID c after. run1 = before @ (typeID, InvalidType c) # after \<and>
               (\<forall>x\<in>set before. IsValid (snd x)) \<and>
               e = Errorf ''type %q is invalid: %s'' [Str typeID, ErrOp c])) \<and>
         (\<forall>e. Validate run2 = Some e \<longleftrightarrow>
            (\<exists>before typeID c after. run2 = before @ (typeID, InvalidType c) # after \<and>
               (\<forall>x\<in>set before. IsValid (snd x)) \<and>
               e = Errorf ''type %q is invalid: %s'' [Str typeID, ErrOp c]))"
proof (intro conjI impI allI)
  fix e
  show "Validate run1 = Some e \<longleftrightarrow>
            (\<exists>before typeID c after. run1 = before @ (typeID, InvalidType c) # after \<and>
               (\<forall>x\<in>set before. IsValid (snd x)) \<and>
               e = Errorf ''type %q is invalid: %s'' [Str typeID, ErrOp c])"
    by (rule Validate_Some_iff_first)
  show "Validate run2 = Some e \<longleftrightarrow>
            (\<exists>before typeID c after. run2 = before @ (typeID, InvalidType c) # after \<and>
               (\<forall>x\<in>set before. IsValid (snd x)) \<and>
               e = Errorf ''type %q is invalid: %s'' [Str typeID, ErrOp c])"
    by (rule Validate_Some_iff_first)
next
  show "Validate run1 = None \<longleftrightarrow> Validate run2 = None"
    using Validate_None_registry [OF assms(1)] Validate_None_registry [OF assms(2)]
    by simp
next
  assume u: "\<forall>i j f g. registry i = Some f \<and> registry j = Some g \<and> \<not> IsValid f \<and> \<not> IsValid g
               \<longrightarrow> i = j"
  have same: "Validate run1 = None \<longleftrightarrow> Validate run2 = None"
    using Validate_None_registry [OF assms(1)] Validate_None_registry [OF assms(2)]
    by simp
  show "Validate run1 = Validate run2"
  proof (cases "Validate run1")
    case None
    with same show ?thesis by simp
  next
    case (Some e)
    from Validate_Some [OF Some] obtain i c where
      h: "(i, InvalidType c) \<in> set run1" "e = Errorf ''type %q is invalid: %s'' [Str i, ErrOp c]"
      by blast
    from h(1) have r: "registry i = Some (InvalidType c)"
      using iteration_entry [OF assms(1)] by simp
    from Some same obtain e' where s2: "Validate run2 = Some e'" by auto
    from Validate_Some [OF s2] obtain j d where
      k: "(j, InvalidType d) \<in> set run2" "e' = Errorf ''type %q is invalid: %s'' [Str j, ErrOp d]"
      by blast
    from k(1) have r': "registry j = Some (InvalidType d)"
      using iteration_entry [OF assms(2)] by simp
    from u r r' have "i = j" by (metis IsValid.simps(1))
    with r r' have "c = d" by simp
    with \<open>i = j\<close> h(2) k(2) Some s2 show ?thesis by simp
  qed
qed

theorem Validate_two_runs_witness:
  "iteration (map_of [(''logger'', AliasType ''log''), (''broken'', InvalidType noReturnErr)])
     [(''logger'', AliasType ''log''), (''broken'', InvalidType noReturnErr)] \<and>
   iteration (map_of [(''logger'', AliasType ''log''), (''broken'', InvalidType noReturnErr)])
     [(''broken'', InvalidType noReturnErr), (''logger'', AliasType ''log'')] \<and>
   Validate [(''logger'', AliasType ''log''), (''broken'', InvalidType noReturnErr)] =
   Validate [(''broken'', InvalidType noReturnErr), (''logger'', AliasType ''log'')] \<and>
   iteration (map_of [(''logger'', AliasType ''log''), (''a'', InvalidType noReturnErr),
                      (''b'', InvalidType noFunctionErr)])
     [(''logger'', AliasType ''log''), (''a'', InvalidType noReturnErr),
      (''b'', InvalidType noFunctionErr)] \<and>
   iteration (map_of [(''logger'', AliasType ''log''), (''a'', InvalidType noReturnErr),
                      (''b'', InvalidType noFunctionErr)])
     [(''b'', InvalidType noFunctionErr), (''logger'', AliasType ''log''),
      (''a'', InvalidType noReturnErr)] \<and>
   Validate [(''logger'', AliasType ''log''), (''a'', InvalidType noReturnErr),
             (''b'', InvalidType noFunctionErr)] =
     Some (Errorf ''type %q is invalid: %s'' [Str ''a'', ErrOp noReturnErr]) \<and>
   Validate [(''b'', InvalidType noFunctionErr), (''logger'', AliasType ''log''),
             (''a'', InvalidType noReturnErr)] =
     Some (Errorf ''type %q is invalid: %s'' [Str ''b'', ErrOp noFunctionErr])"
proof -
  let ?one1 = "[(''logger'', AliasType ''log''), (''broken'', InvalidType noReturnErr)]"
  let ?one2 = "[(''broken'', InvalidType noReturnErr), (''logger'', AliasType ''log'')]"
  let ?two1 = "[(''logger'', AliasType ''log''), (''a'', InvalidType noReturnErr),
                (''b'', InvalidType noFunctionErr)]"
  let ?two2 = "[(''b'', InvalidType noFunctionErr), (''logger'', AliasType ''log''),
                (''a'', InvalidType noReturnErr)]"
  have h1: "iteration (map_of ?one1) ?one1"
    by (simp add: iteration_def)
  have h2: "iteration (map_of ?one1) ?one2"
    by (auto simp: iteration_def)
  have k1: "iteration (map_of ?two1) ?two1"
    by (simp add: iteration_def)
  have k2: "iteration (map_of ?two1) ?two2"
    by (auto simp: iteration_def)
  have same: "Validate ?one1 = Validate ?one2"
    using Validate_two_runs [OF h1 h2] by simp
  note both = Validate_two_runs [OF k1 k2]
  note c1 = both [THEN conjunct2, THEN conjunct2, THEN conjunct1, THEN spec, THEN iffD2]
  note c2 = both [THEN conjunct2, THEN conjunct2, THEN conjunct2, THEN spec, THEN iffD2]
  have s1: "\<exists>before typeID c after. ?two1 = before @ (typeID, InvalidType c) # after \<and>
               (\<forall>x\<in>set before. IsValid (snd x)) \<and>
               Errorf ''type %q is invalid: %s'' [Str ''a'', ErrOp noReturnErr] =
               Errorf ''type %q is invalid: %s'' [Str typeID, ErrOp c]"
    by (rule exI [of _ "[(''logger'', AliasType ''log'')]"], rule exI [of _ "''a''"],
        rule exI [of _ noReturnErr], rule exI [of _ "[(''b'', InvalidType noFunctionErr)]"])
       simp
  have s2: "\<exists>before typeID c after. ?two2 = before @ (typeID, InvalidType c) # after \<and>
               (\<forall>x\<in>set before. IsValid (snd x)) \<and>
               Errorf ''type %q is invalid: %s'' [Str ''b'', ErrOp noFunctionErr] =
               Errorf ''type %q is invalid: %s'' [Str typeID, ErrOp c]"
    by (rule exI [of _ "[]"], rule exI [of _ "''b''"], rule exI [of _ noFunctionErr],
        rule exI [of _ "[(''logger'', AliasType ''log''), (''a'', InvalidType noReturnErr)]"])
       simp
  have a: "Validate ?two1 = Some (Errorf ''type %q is invalid: %s'' [Str ''a'', ErrOp noReturnErr])"
    using s1 by (rule c1)
  have b: "Validate ?two2 = Some (Errorf ''type %q is invalid: %s'' [Str ''b'', ErrOp noFunctionErr])"
    using s2 by (rule c2)
  from h1 h2 same k1 k2 a b show ?thesis by (intro conjI)
qed

end
